theory Spec2Isabelle
  imports Main "HOL-Library.Word"
begin

section \<open>Errors (errors.go)\<close>

text \<open>
  Go's \<open>error\<close> values that the package produces or receives.

  \<^item> The six package-level sentinels of errors.go.
  \<^item> \<open>Errno\<close>: \<open>syscall.Errno\<close>, a \<open>uintptr\<close> (64 bits on the 64-bit Windows targets).
  \<^item> \<open>ErrorsNew\<close>: the result of \<open>errors.New(msg)\<close>.
  \<^item> \<open>Errorf\<close>: the result of \<open>fmt.Errorf(format, args...)\<close>; the message is determined
    by the format string and its arguments, which are kept as they are passed.
  \<^item> \<open>OleError\<close>: go-ole's \<open>*ole.OleError\<close> with its result code (\<open>Code()\<close>, a
    \<open>uintptr\<close>) and its sub-error (\<open>SubError()\<close>): nil, an \<open>ole.EXCEPINFO\<close> value with
    its \<open>SCODE()\<close>, or an error of any other dynamic type.
  \<^item> \<open>OtherError\<close>: an error of a dynamic type the package does not know.
\<close>

datatype sub_error = NoSubError | EXCEPINFO (SCODE: "32 word") | OtherSubError

datatype go_error =
    ErrTargetUnsupported
  | ErrConnectionFailure
  | ErrInvalidPath
  | ErrNoActions
  | ErrInvalidPrincipal
  | ErrRunningTaskCompleted
  | Errno "64 word"
  | ErrorsNew string
  | Errorf string "fmt_arg list"
  | OleError (Code: "64 word") (SubError: sub_error)
  | OtherError string
and fmt_arg = ArgStr string | ArgErr go_error

text \<open>errors.go, lines 51-60.  The Go function returns the pair (code, error).\<close>

fun getOLEErrorCode :: "go_error \<Rightarrow> 32 word \<times> go_error option" where
  "getOLEErrorCode (OleError hr (EXCEPINFO sc)) = (sc, None)"
| "getOLEErrorCode (OleError hr sub) =
     (ucast hr, Some (ErrorsNew ''failed to extract OLE sub-error code''))"
| "getOLEErrorCode err = (0, Some (ErrorsNew ''failed to extract OLE error code''))"

text \<open>errors.go, lines 22-36.\<close>

definition getTaskSchedulerError :: "go_error \<Rightarrow> go_error" where
  "getTaskSchedulerError err =
     (case getOLEErrorCode err of
        (errCode, Some parseErr) \<Rightarrow> parseErr
      | (errCode, None) \<Rightarrow>
          if errCode = 50 then ErrTargetUnsupported
          else if errCode = 0x80070032 \<or> errCode = 53 then ErrConnectionFailure
          else Errno (ucast errCode))"

text \<open>errors.go, lines 38-49.\<close>

definition getRunningTaskError :: "go_error \<Rightarrow> go_error" where
  "getRunningTaskError err =
     (case getOLEErrorCode err of
        (errCode, Some parseErr) \<Rightarrow> parseErr
      | (errCode, None) \<Rightarrow>
          if errCode = 0x8004130B then ErrRunningTaskCompleted
          else Errno (ucast errCode))"

subsection \<open>The second errors file (unnamed/part_000)\<close>

text \<open>part_000, lines 51-65: the direct code is tried first, the sub-error second.\<close>

fun getOLEErrorCode_part000 :: "go_error \<Rightarrow> 32 word \<times> go_error option" where
  "getOLEErrorCode_part000 (OleError hr sub) =
     (if hr \<noteq> 0 then (ucast hr, None)
      else (case sub of
              EXCEPINFO sc \<Rightarrow> (sc, None)
            | _ \<Rightarrow> (0, Some (ErrorsNew ''could not determine OLE error code''))))"
| "getOLEErrorCode_part000 err =
     (0, Some (ErrorsNew ''could not determine OLE error code''))"

text \<open>part_000, lines 23-37.\<close>

definition getTaskSchedulerError_part000 :: "go_error \<Rightarrow> go_error" where
  "getTaskSchedulerError_part000 err =
     (case getOLEErrorCode_part000 err of
        (errCode, Some codeErr) \<Rightarrow>
          Errorf ''task scheduler error: %v (unable to get specific error code: %v)''
            [ArgErr err, ArgErr codeErr]
      | (errCode, None) \<Rightarrow>
          if errCode = 50 then ErrTargetUnsupported
          else if errCode = 0x80070032 \<or> errCode = 53 then ErrConnectionFailure
          else Errno (ucast errCode))"

text \<open>part_000, lines 39-49.\<close>

definition getRunningTaskError_part000 :: "go_error \<Rightarrow> go_error" where
  "getRunningTaskError_part000 err =
     (case getOLEErrorCode_part000 err of
        (errCode, Some codeErr) \<Rightarrow>
          Errorf ''running task error: %v (unable to get specific error code: %v)''
            [ArgErr err, ArgErr codeErr]
      | (errCode, None) \<Rightarrow>
          if errCode = 0x8004130B then ErrRunningTaskCompleted
          else Errno (ucast errCode))"

section \<open>The task definition model\<close>

text \<open>
  The type declarations of the package (types.go) are not among the sources at hand.  The
  records below have the fields that manage.go reads or writes, and, for \<open>Actions\<close> and
  \<open>Triggers\<close>, the ones the validator is specified on.  Enumerations have the constants
  that manage.go names and one constructor for every other value.
\<close>

datatype TaskLogonType = TASK_LOGON_INTERACTIVE_TOKEN | TaskLogonType_other nat
datatype TaskRunLevel = TASK_RUNLEVEL_LUA | TaskRunLevel_other nat
datatype TaskCompatibility = TASK_COMPATIBILITY_V2 | TaskCompatibility_other nat
datatype TaskInstancesPolicy = TASK_INSTANCES_IGNORE_NEW | TaskInstancesPolicy_other nat
datatype TaskCreationFlags = TASK_CREATE | TASK_UPDATE | TaskCreationFlags_other nat

text \<open>\<open>period.Period\<close> as built by \<open>period.NewHMS(hours, minutes, seconds)\<close>.\<close>

record Period =
  Hours :: int
  Minutes :: int
  Seconds :: int

definition NewHMS :: "int \<Rightarrow> int \<Rightarrow> int \<Rightarrow> Period" where
  "NewHMS h m s = \<lparr>Hours = h, Minutes = m, Seconds = s\<rparr>"

text \<open>\<open>time.Time\<close>, as an instant on an integer time line.\<close>

type_synonym Time = int

datatype Action = Action nat
datatype Trigger = Trigger nat

record Principal =
  LogonType :: TaskLogonType
  RunLevel :: TaskRunLevel
  UserID :: string
  GroupID :: string

record RegistrationInfo =
  Author :: string
  Date :: Time

record IdleSettings =
  IdleDuration :: Period
  WaitTimeout :: Period

record TaskSettings =
  AllowDemandStart :: bool
  AllowHardTerminate :: bool
  Compatibility :: TaskCompatibility
  DontStartOnBatteries :: bool
  Enabled :: bool
  Hidden :: bool
  IdleSettings :: IdleSettings
  MultipleInstances :: TaskInstancesPolicy
  Priority :: int
  RestartCount :: int
  RestartOnIdle :: bool
  RunOnlyIfIdle :: bool
  RunOnlyIfNetworkAvailable :: bool
  StartWhenAvailable :: bool
  StopIfGoingOnBatteries :: bool
  StopOnIdleEnd :: bool
  TimeLimit :: Period
  WakeToRun :: bool

record Definition =
  Actions :: "Action list"
  Principal :: Principal
  RegistrationInfo :: RegistrationInfo
  Settings :: TaskSettings
  Triggers :: "Trigger list"

text \<open>
  Modelled from the spec: the RegisteredTask type (types.go is not among the sources): a
  snapshot of one task known to the service, with its path, its enabled state and its
  parsed definition.
\<close>

record RegisteredTask =
  rt_Name :: string
  rt_Path :: string
  rt_Definition :: Definition
  rt_Enabled :: bool

text \<open>
  The TaskFolder tree that \<open>GetTaskFolder\<close> builds.  Go's \<open>SubFolders\<close> holds pointers to
  nodes that are filled in after they are appended; the tree is handed out only when the
  walk has succeeded, so the model builds every node completely before appending it.
\<close>

datatype TaskFolder =
  TaskFolder (Name: string) (Path: string)
    (RegisteredTasks: "RegisteredTask list") (SubFolders: "TaskFolder list")

section \<open>The connection (manage.go)\<close>

text \<open>A native object handle (\<open>*ole.IDispatch\<close>); \<open>None\<close> is the nil pointer.\<close>

datatype IDispatch = IDispatch nat

record TaskService =
  taskServiceObj :: "IDispatch option"
  rootFolderObj :: "IDispatch option"
  isInitialized :: bool
  isConnected :: bool
  connectedDomain :: string
  connectedComputerName :: string
  connectedUser :: string

text \<open>
  How a call ends: with a run-time panic (an index out of range, a call through a nil
  handle), with a non-nil \<open>error\<close>, or with its value.
\<close>

datatype 'a result = Panicked | Failed go_error | Returned 'a

abbreviation BACKSLASH :: char where
  "BACKSLASH \<equiv> CHR 0x5C"

text \<open>
  manage.go, lines 117-128.  \<open>Disconnect\<close> returns nothing; the model returns the
  connection as it is left and what was released, in order.  \<open>Release\<close> through a nil
  handle is a nil dereference.
\<close>

datatype com_event = Release IDispatch | CoUninitialize

definition Disconnect :: "TaskService \<Rightarrow> (TaskService \<times> com_event list) result" where
  "Disconnect t =
     (case (if isConnected t
            then (case taskServiceObj t of
                    None \<Rightarrow> Panicked
                  | Some s \<Rightarrow> (case rootFolderObj t of
                                None \<Rightarrow> Panicked
                              | Some r \<Rightarrow> Returned [Release s, Release r]))
            else Returned []) of
        Panicked \<Rightarrow> Panicked
      | Failed e \<Rightarrow> Failed e
      | Returned released \<Rightarrow>
          Returned (t\<lparr>isInitialized := False, isConnected := False\<rparr>,
                    released @ (if isInitialized t then [CoUninitialize] else [])))"

text \<open>
  manage.go, lines 392-422.  The clock read by \<open>time.Now()\<close> is the parameter \<open>now\<close>.
  \<open>var newDef Definition\<close> starts from the zero value: fields that are not assigned stay
  empty.
\<close>

definition NewTaskDefinition :: "TaskService \<Rightarrow> Time \<Rightarrow> Definition" where
  "NewTaskDefinition t now =
     \<lparr>Actions = [],
      Principal = \<lparr>LogonType = TASK_LOGON_INTERACTIVE_TOKEN, RunLevel = TASK_RUNLEVEL_LUA,
                   UserID = [], GroupID = []\<rparr>,
      RegistrationInfo = \<lparr>Author = connectedDomain t @ [BACKSLASH] @ connectedUser t,
                          Date = now\<rparr>,
      Settings = \<lparr>AllowDemandStart = True,
                  AllowHardTerminate = True,
                  Compatibility = TASK_COMPATIBILITY_V2,
                  DontStartOnBatteries = True,
                  Enabled = True,
                  Hidden = False,
                  IdleSettings = \<lparr>IdleDuration = NewHMS 0 10 0, WaitTimeout = NewHMS 1 0 0\<rparr>,
                  MultipleInstances = TASK_INSTANCES_IGNORE_NEW,
                  Priority = 7,
                  RestartCount = 0,
                  RestartOnIdle = False,
                  RunOnlyIfIdle = False,
                  RunOnlyIfNetworkAvailable = False,
                  StartWhenAvailable = False,
                  StopIfGoingOnBatteries = True,
                  StopOnIdleEnd = True,
                  TimeLimit = NewHMS 72 0 0,
                  WakeToRun = False\<rparr>,
      Triggers = []\<rparr>"

text \<open>
  Modelled from the spec: validateDefinition (its file is not among the sources).  It fails
  with \<open>ErrNoActions\<close> if Actions is empty and with \<open>ErrInvalidPrincipal\<close> if both
  UserID and GroupID are set.
\<close>

definition validateDefinition :: "Definition \<Rightarrow> go_error option" where
  "validateDefinition def =
     (if Actions def = [] then Some ErrNoActions
      else if UserID (Principal def) \<noteq> [] \<and> GroupID (Principal def) \<noteq> []
      then Some ErrInvalidPrincipal
      else None)"

section \<open>The native object bridge\<close>

text \<open>
  The scheduler service and go-ole are outside the package.  The service's hierarchy is a
  finite tree of folders; a folder or task object handed out by the service is the node it
  stands for.  Every \<open>oleutil.CallMethod\<close> of manage.go is recorded, in order, in a log of
  calls.  Property reads (\<open>Name\<close>, \<open>Path\<close>, \<open>Count\<close>) and the iteration of a collection
  are answered from the node and are not recorded.
\<close>

datatype ntask = NTask (task_Path: string) (task_Definition: Definition)

datatype nfolder =
  NFolder (folder_Name: string) (folder_Path: string)
    (folder_Tasks: "ntask list") (folder_Folders: "nfolder list")

datatype native_call =
    Call_GetFolder string \<comment> \<open>taskServiceObj: GetFolder(path)\<close>
  | Call_NewTask \<comment> \<open>taskServiceObj: NewTask(0)\<close>
  | Call_GetTask string \<comment> \<open>rootFolderObj: GetTask(path)\<close>
  | Call_CreateFolder string \<comment> \<open>rootFolderObj: CreateFolder(path, "")\<close>
  | Call_DeleteTask string \<comment> \<open>rootFolderObj: DeleteTask(path, 0)\<close>
  | Call_DeleteFolder string \<comment> \<open>rootFolderObj: DeleteFolder(path, 0)\<close>
  | Call_RegisterTaskDefinition string Definition TaskCreationFlags string string TaskLogonType
      \<comment> \<open>rootFolderObj: RegisterTaskDefinition(path, def, flags, user, password, logon, "")\<close>
  | Call_GetTasks string \<comment> \<open>the folder object with this path: GetTasks(TASK_ENUM_HIDDEN)\<close>
  | Call_GetFolders string bool
      \<comment> \<open>the folder object with this path: GetFolders(flags); True for TASK_ENUM_HIDDEN, False for 0\<close>
  | Call_fillDefinitionObj Definition
      \<comment> \<open>the property writes of fillDefinitionObj on the new definition object\<close>

text \<open>
  What the code cannot decide by itself is a parameter:
  \<^item> \<open>hierarchy\<close>: the folder tree of the service, which the root folder handle of a
    connection stands for;
  \<^item> \<open>folderAt\<close>, \<open>taskAt\<close>: the folder object and the task object that the service
    resolves a path to, if any;
  \<^item> \<open>fault\<close>: whether a native call fails, and with which error, given the calls made so
    far;
  \<^item> \<open>parseRegisteredTask\<close>: the parser of a native task object (parse.go is not among
    the sources), returning the task, its path and an error or nil.
\<close>

record bridge =
  hierarchy :: nfolder
  folderAt :: "string \<Rightarrow> nfolder option"
  taskAt :: "string \<Rightarrow> ntask option"
  fault :: "native_call list \<Rightarrow> native_call \<Rightarrow> go_error option"
  parseRegisteredTask :: "ntask \<Rightarrow> RegisteredTask \<times> string \<times> go_error option"

text \<open>
  A resolution of paths by search in a folder tree: the first folder, respectively task,
  with exactly that path.
\<close>

fun find_folder :: "nfolder \<Rightarrow> string \<Rightarrow> nfolder option"
  and find_folder_list :: "nfolder list \<Rightarrow> string \<Rightarrow> nfolder option" where
  "find_folder (NFolder n p ts fs) path =
     (if p = path then Some (NFolder n p ts fs) else find_folder_list fs path)"
| "find_folder_list [] path = None"
| "find_folder_list (f # fs) path =
     (case find_folder f path of Some r \<Rightarrow> Some r | None \<Rightarrow> find_folder_list fs path)"

fun find_task :: "nfolder \<Rightarrow> string \<Rightarrow> ntask option"
  and find_task_list :: "nfolder list \<Rightarrow> string \<Rightarrow> ntask option" where
  "find_task (NFolder n p ts fs) path =
     (case find (\<lambda>t. task_Path t = path) ts of
        Some t \<Rightarrow> Some t
      | None \<Rightarrow> find_task_list fs path)"
| "find_task_list [] path = None"
| "find_task_list (f # fs) path =
     (case find_task f path of Some r \<Rightarrow> Some r | None \<Rightarrow> find_task_list fs path)"

text \<open>The error of the service for a path it does not know (ERROR_FILE_NOT_FOUND).\<close>

definition err_not_found :: go_error where
  "err_not_found = OleError 0x80020009 (EXCEPINFO 0x80070002)"

text \<open>
  \<open>oleutil.CallMethod\<close>: a call through a nil handle panics before anything reaches the
  service; otherwise the call is recorded and fails or succeeds.
\<close>

definition CallMethod ::
  "bridge \<Rightarrow> 'h option \<Rightarrow> native_call \<Rightarrow> native_call list \<Rightarrow> unit result \<times> native_call list" where
  "CallMethod br disp c log =
     (case disp of
        None \<Rightarrow> (Panicked, log)
      | Some h \<Rightarrow>
          (case fault br log c of
             Some e \<Rightarrow> (Failed e, log @ [c])
           | None \<Rightarrow> (Returned (), log @ [c])))"

text \<open>\<open>CallMethod(t.taskServiceObj, "GetFolder", path)\<close> and its result.\<close>

definition service_GetFolder ::
  "bridge \<Rightarrow> TaskService \<Rightarrow> string \<Rightarrow> native_call list \<Rightarrow> nfolder result \<times> native_call list" where
  "service_GetFolder br t path log =
     (case CallMethod br (taskServiceObj t) (Call_GetFolder path) log of
        (Panicked, l) \<Rightarrow> (Panicked, l)
      | (Failed e, l) \<Rightarrow> (Failed e, l)
      | (Returned u, l) \<Rightarrow>
          (case folderAt br path of
             None \<Rightarrow> (Failed err_not_found, l)
           | Some f \<Rightarrow> (Returned f, l)))"

text \<open>\<open>CallMethod(t.rootFolderObj, "GetTask", path)\<close> and its result.\<close>

definition rootFolder_GetTask ::
  "bridge \<Rightarrow> TaskService \<Rightarrow> string \<Rightarrow> native_call list \<Rightarrow> ntask result \<times> native_call list" where
  "rootFolder_GetTask br t path log =
     (case CallMethod br (rootFolderObj t) (Call_GetTask path) log of
        (Panicked, l) \<Rightarrow> (Panicked, l)
      | (Failed e, l) \<Rightarrow> (Failed e, l)
      | (Returned u, l) \<Rightarrow>
          (case taskAt br path of
             None \<Rightarrow> (Failed err_not_found, l)
           | Some task \<Rightarrow> (Returned task, l)))"

section \<open>Reading (manage.go)\<close>

text \<open>manage.go, lines 251-267.\<close>

definition GetRegisteredTask ::
  "bridge \<Rightarrow> TaskService \<Rightarrow> string \<Rightarrow> native_call list
    \<Rightarrow> RegisteredTask result \<times> native_call list" where
  "GetRegisteredTask br t path log =
     (case path of
        [] \<Rightarrow> (Panicked, log)
      | c # cs \<Rightarrow>
          if c \<noteq> BACKSLASH then (Failed ErrInvalidPath, log)
          else
            (case rootFolder_GetTask br t path log of
               (Panicked, l) \<Rightarrow> (Panicked, l)
             | (Failed err, l) \<Rightarrow>
                 (Failed (Errorf ''error getting registered task %s: %v''
                            [ArgStr path, ArgErr (getTaskSchedulerError err)]), l)
             | (Returned taskObj, l) \<Rightarrow>
                 (case parseRegisteredTask br taskObj of
                    (task, p, Some err) \<Rightarrow>
                      (Failed (Errorf ''error parsing registered task %s: %v''
                                 [ArgStr path, ArgErr err]), l)
                  | (task, p, None) \<Rightarrow> (Returned task, l))))"

text \<open>
  The visitor that parses every task of a collection and appends it to the folder's
  \<open>RegisteredTasks\<close> (lines 303-313 and 347-357); \<open>oleutil.ForEach\<close> stops at the first
  error.
\<close>

fun forEach_parse ::
  "bridge \<Rightarrow> ntask list \<Rightarrow> RegisteredTask list \<Rightarrow> RegisteredTask list result" where
  "forEach_parse br [] acc = Returned acc"
| "forEach_parse br (task # tasks) acc =
     (case parseRegisteredTask br task of
        (registeredTask, p, Some err) \<Rightarrow>
          Failed (Errorf ''error parsing registered task %s: %v'' [ArgStr p, ArgErr err])
      | (registeredTask, p, None) \<Rightarrow> forEach_parse br tasks (acc @ [registeredTask]))"

text \<open>
  manage.go, lines 326-380: \<open>enumTaskFolders\<close> visits one folder object and returns the
  node that the Go closure appends to its parent; the second function is
  \<open>oleutil.ForEach(taskFolderList, initEnumTaskFolders(parent))\<close>, returning the parent's
  \<open>SubFolders\<close>.
\<close>

fun enumTaskFolders ::
  "bridge \<Rightarrow> nfolder \<Rightarrow> native_call list \<Rightarrow> TaskFolder result \<times> native_call list"
  and forEach_enumTaskFolders ::
  "bridge \<Rightarrow> nfolder list \<Rightarrow> TaskFolder list \<Rightarrow> native_call list
    \<Rightarrow> TaskFolder list result \<times> native_call list" where
  "enumTaskFolders br (NFolder name path tasks folders) log =
     (case CallMethod br (Some ()) (Call_GetTasks path) log of
        (Panicked, l1) \<Rightarrow> (Panicked, l1)
      | (Failed err, l1) \<Rightarrow>
          (Failed (Errorf ''error getting tasks of folder %s: %v''
                     [ArgStr path, ArgErr (getTaskSchedulerError err)]), l1)
      | (Returned u, l1) \<Rightarrow>
          (case forEach_parse br tasks [] of
             Panicked \<Rightarrow> (Panicked, l1)
           | Failed e \<Rightarrow> (Failed e, l1)
           | Returned rts \<Rightarrow>
               (case CallMethod br (Some ()) (Call_GetFolders path False) l1 of
                  (Panicked, l2) \<Rightarrow> (Panicked, l2)
                | (Failed err, l2) \<Rightarrow>
                    (Failed (Errorf ''error getting subfolders of folder %s: %v''
                               [ArgStr path, ArgErr (getTaskSchedulerError err)]), l2)
                | (Returned u2, l2) \<Rightarrow>
                    (case forEach_enumTaskFolders br folders [] l2 of
                       (Panicked, l3) \<Rightarrow> (Panicked, l3)
                     | (Failed e, l3) \<Rightarrow> (Failed e, l3)
                     | (Returned subs, l3) \<Rightarrow>
                         (Returned (TaskFolder name path rts subs), l3)))))"
| "forEach_enumTaskFolders br [] acc log = (Returned acc, log)"
| "forEach_enumTaskFolders br (f # fs) acc log =
     (case enumTaskFolders br f log of
        (Panicked, l1) \<Rightarrow> (Panicked, l1)
      | (Failed e, l1) \<Rightarrow> (Failed e, l1)
      | (Returned sub, l1) \<Rightarrow> forEach_enumTaskFolders br fs (acc @ [sub]) l1)"

text \<open>
  manage.go, lines 295-387: the walk from the top folder object.  A nil top folder object
  makes the first call panic.  The root node of the result is created as
  \<open>TaskFolder{Path: `\`}\<close>.
\<close>

definition GetTaskFolder_walk ::
  "bridge \<Rightarrow> string \<Rightarrow> nfolder option \<Rightarrow> native_call list
    \<Rightarrow> TaskFolder result \<times> native_call list" where
  "GetTaskFolder_walk br path topFolderObj log =
     (case topFolderObj of
        None \<Rightarrow> (Panicked, log)
      | Some topFolder \<Rightarrow>
          (case CallMethod br topFolderObj (Call_GetTasks (folder_Path topFolder)) log of
             (Panicked, l1) \<Rightarrow> (Panicked, l1)
           | (Failed err, l1) \<Rightarrow>
               (Failed (Errorf ''error getting tasks of folder %s: %v''
                          [ArgStr path, ArgErr (getTaskSchedulerError err)]), l1)
           | (Returned u, l1) \<Rightarrow>
               (case forEach_parse br (folder_Tasks topFolder) [] of
                  Panicked \<Rightarrow> (Panicked, l1)
                | Failed e \<Rightarrow> (Failed e, l1)
                | Returned rts \<Rightarrow>
                    (case CallMethod br topFolderObj
                            (Call_GetFolders (folder_Path topFolder) False) l1 of
                       (Panicked, l2) \<Rightarrow> (Panicked, l2)
                     | (Failed err, l2) \<Rightarrow>
                         (Failed (Errorf ''error getting subfolders of folder %s: %v''
                                    [ArgStr path, ArgErr (getTaskSchedulerError err)]), l2)
                     | (Returned u2, l2) \<Rightarrow>
                         (case forEach_enumTaskFolders br (folder_Folders topFolder) [] l2 of
                            (Panicked, l3) \<Rightarrow> (Panicked, l3)
                          | (Failed e, l3) \<Rightarrow> (Failed e, l3)
                          | (Returned subs, l3) \<Rightarrow>
                              (Returned (TaskFolder [] [BACKSLASH] rts subs), l3))))))"

text \<open>
  manage.go, lines 278-293, then the walk.  The top folder object is the connection's root
  folder handle for the path of the root, and the result of \<open>GetFolder\<close> otherwise.
\<close>

definition GetTaskFolder ::
  "bridge \<Rightarrow> TaskService \<Rightarrow> string \<Rightarrow> native_call list
    \<Rightarrow> TaskFolder result \<times> native_call list" where
  "GetTaskFolder br t path log =
     (case path of
        [] \<Rightarrow> (Panicked, log)
      | c # cs \<Rightarrow>
          if c \<noteq> BACKSLASH then (Failed ErrInvalidPath, log)
          else if path = [BACKSLASH]
          then GetTaskFolder_walk br path
                 (map_option (\<lambda>h. hierarchy br) (rootFolderObj t)) log
          else
            (case service_GetFolder br t path log of
               (Panicked, l) \<Rightarrow> (Panicked, l)
             | (Failed err, l) \<Rightarrow>
                 (Failed (Errorf ''error getting folder %s: %v''
                            [ArgStr path, ArgErr (getTaskSchedulerError err)]), l)
             | (Returned topFolder, l) \<Rightarrow> GetTaskFolder_walk br path (Some topFolder) l))"

text \<open>manage.go, lines 271-273.\<close>

definition GetTaskFolders ::
  "bridge \<Rightarrow> TaskService \<Rightarrow> native_call list \<Rightarrow> TaskFolder result \<times> native_call list" where
  "GetTaskFolders br t log = GetTaskFolder br t [BACKSLASH] log"

section \<open>Writing (manage.go)\<close>

text \<open>manage.go, lines 645-658.\<close>

definition DeleteTask ::
  "bridge \<Rightarrow> TaskService \<Rightarrow> string \<Rightarrow> native_call list \<Rightarrow> unit result \<times> native_call list" where
  "DeleteTask br t path log =
     (case path of
        [] \<Rightarrow> (Panicked, log)
      | c # cs \<Rightarrow>
          if c \<noteq> BACKSLASH then (Failed ErrInvalidPath, log)
          else
            (case CallMethod br (rootFolderObj t) (Call_DeleteTask path) log of
               (Panicked, l) \<Rightarrow> (Panicked, l)
             | (Failed err, l) \<Rightarrow>
                 (Failed (Errorf ''error deleting task %s: %v''
                            [ArgStr path, ArgErr (getTaskSchedulerError err)]), l)
             | (Returned u, l) \<Rightarrow> (Returned (), l)))"

text \<open>manage.go, lines 660-676.\<close>

definition registeredTaskExist ::
  "bridge \<Rightarrow> TaskService \<Rightarrow> string \<Rightarrow> native_call list \<Rightarrow> bool result \<times> native_call list" where
  "registeredTaskExist br t path log =
     (case rootFolder_GetTask br t path log of
        (Panicked, l) \<Rightarrow> (Panicked, l)
      | (Failed err, l) \<Rightarrow> (Returned False, l)
      | (Returned task, l) \<Rightarrow> (Returned True, l))"

definition taskFolderExist ::
  "bridge \<Rightarrow> TaskService \<Rightarrow> string \<Rightarrow> native_call list \<Rightarrow> bool result \<times> native_call list" where
  "taskFolderExist br t path log =
     (case service_GetFolder br t path log of
        (Panicked, l) \<Rightarrow> (Panicked, l)
      | (Failed err, l) \<Rightarrow> (Returned False, l)
      | (Returned folder, l) \<Rightarrow> (Returned True, l))"

text \<open>
  Modelled from the spec: fillDefinitionObj (fill.go is not among the sources) issues the
  property writes for every field of the definition on the native definition object.  They
  are recorded as one entry of the log, with the definition that is written.
\<close>

definition fillDefinitionObj ::
  "bridge \<Rightarrow> Definition \<Rightarrow> native_call list \<Rightarrow> unit result \<times> native_call list" where
  "fillDefinitionObj br newTaskDef log =
     CallMethod br (Some ()) (Call_fillDefinitionObj newTaskDef) log"

text \<open>manage.go, lines 511-514: the first statement of \<open>modifyTask\<close>.\<close>

definition default_UserID :: "TaskService \<Rightarrow> Definition \<Rightarrow> Definition" where
  "default_UserID t newTaskDef =
     (if UserID (Principal newTaskDef) = [] \<and> GroupID (Principal newTaskDef) = []
      then newTaskDef\<lparr>Principal := (Principal newTaskDef)
             \<lparr>UserID := connectedDomain t @ [BACKSLASH] @ connectedUser t\<rparr>\<rparr>
      else newTaskDef)"

text \<open>
  manage.go, lines 510-534.  The task object that a successful registration returns is the
  task of that path with the definition that was filled in.
\<close>

definition modifyTask ::
  "bridge \<Rightarrow> TaskService \<Rightarrow> string \<Rightarrow> Definition \<Rightarrow> string \<Rightarrow> string \<Rightarrow> TaskLogonType
    \<Rightarrow> TaskCreationFlags \<Rightarrow> native_call list \<Rightarrow> ntask result \<times> native_call list" where
  "modifyTask br t path newTaskDef0 username password logonType flags log =
     (let newTaskDef = default_UserID t newTaskDef0
      in case CallMethod br (taskServiceObj t) Call_NewTask log of
           (Panicked, l1) \<Rightarrow> (Panicked, l1)
         | (Failed err, l1) \<Rightarrow>
             (Failed (Errorf ''error creating new task: %v''
                        [ArgErr (getTaskSchedulerError err)]), l1)
         | (Returned u, l1) \<Rightarrow>
             (case fillDefinitionObj br newTaskDef l1 of
                (Panicked, l2) \<Rightarrow> (Panicked, l2)
              | (Failed err, l2) \<Rightarrow>
                  (Failed (Errorf ''error filling ITaskDefinition: %v'' [ArgErr err]), l2)
              | (Returned u2, l2) \<Rightarrow>
                  (case CallMethod br (rootFolderObj t)
                          (Call_RegisterTaskDefinition path newTaskDef flags username password
                             logonType) l2 of
                     (Panicked, l3) \<Rightarrow> (Panicked, l3)
                   | (Failed err, l3) \<Rightarrow>
                       (Failed (Errorf ''error registering task: %v''
                                  [ArgErr (getTaskSchedulerError err)]), l3)
                   | (Returned u3, l3) \<Rightarrow> (Returned (NTask path newTaskDef), l3))))"

text \<open>
  \<open>strings.LastIndex(s, sep)\<close> for a separator of one byte: the index of its last
  occurrence, or -1.
\<close>

definition LastIndex :: "string \<Rightarrow> char \<Rightarrow> int" where
  "LastIndex s c =
     (if c \<in> set s
      then int (length s) - 1 - int (length (takeWhile (\<lambda>x. x \<noteq> c) (rev s)))
      else - 1)"

text \<open>
  manage.go, lines 434-479.  The result is the task and the flag; with an error the Go
  function returns the zero task and false.  A slice bound below zero panics.  Lines
  468-478, which three branches of the function reach, are the local function
  \<open>register\<close>.
\<close>

definition CreateTaskEx ::
  "bridge \<Rightarrow> TaskService \<Rightarrow> string \<Rightarrow> Definition \<Rightarrow> string \<Rightarrow> string \<Rightarrow> TaskLogonType
    \<Rightarrow> bool \<Rightarrow> native_call list \<Rightarrow> (RegisteredTask \<times> bool) result \<times> native_call list" where
  "CreateTaskEx br t path newTaskDef username password logonType overwrite log =
     (case path of
        [] \<Rightarrow> (Panicked, log)
      | c # cs \<Rightarrow>
          if c \<noteq> BACKSLASH then (Failed ErrInvalidPath, log)
          else
            (case validateDefinition newTaskDef of
               Some err \<Rightarrow> (Failed err, log)
             | None \<Rightarrow>
                 (let nameIndex = LastIndex path BACKSLASH in
                  if nameIndex < 0 then (Panicked, log)
                  else
                    (let folderPath = take (nat nameIndex) path;
                         register = (\<lambda>l.
                           case modifyTask br t path newTaskDef username password logonType
                                  TASK_CREATE l of
                             (Panicked, l') \<Rightarrow> (Panicked, l')
                           | (Failed err, l') \<Rightarrow>
                               (Failed (Errorf ''error creating registered task %s: %v''
                                          [ArgStr path, ArgErr err]), l')
                           | (Returned newTaskObj, l') \<Rightarrow>
                               (case parseRegisteredTask br newTaskObj of
                                  (newTask, p, Some err) \<Rightarrow>
                                    (Failed (Errorf ''error parsing registered task %s: %v''
                                               [ArgStr path, ArgErr err]), l')
                                | (newTask, p, None) \<Rightarrow> (Returned (newTask, True), l')))
                     in case taskFolderExist br t folderPath log of
                          (Panicked, l1) \<Rightarrow> (Panicked, l1)
                        | (Failed e, l1) \<Rightarrow> (Failed e, l1)
                        | (Returned False, l1) \<Rightarrow>
                            (case CallMethod br (rootFolderObj t) (Call_CreateFolder folderPath)
                                    l1 of
                               (Panicked, l2) \<Rightarrow> (Panicked, l2)
                             | (Failed err, l2) \<Rightarrow>
                                 (Failed (Errorf ''error creating folder %s: %v''
                                            [ArgStr path, ArgErr (getTaskSchedulerError err)]),
                                  l2)
                             | (Returned u, l2) \<Rightarrow> register l2)
                        | (Returned True, l1) \<Rightarrow>
                            (case registeredTaskExist br t path l1 of
                               (Panicked, l2) \<Rightarrow> (Panicked, l2)
                             | (Failed e, l2) \<Rightarrow> (Failed e, l2)
                             | (Returned False, l2) \<Rightarrow> register l2
                             | (Returned True, l2) \<Rightarrow>
                                 if \<not> overwrite
                                 then (case GetRegisteredTask br t path l2 of
                                         (Panicked, l3) \<Rightarrow> (Panicked, l3)
                                       | (Failed err, l3) \<Rightarrow> (Failed err, l3)
                                       | (Returned task, l3) \<Rightarrow> (Returned (task, False), l3))
                                 else
                                   (case CallMethod br (rootFolderObj t) (Call_DeleteTask path)
                                           l2 of
                                      (Panicked, l3) \<Rightarrow> (Panicked, l3)
                                    | (Failed err, l3) \<Rightarrow>
                                        (Failed (Errorf ''error deleting registered task %s: %v''
                                                   [ArgStr path,
                                                    ArgErr (getTaskSchedulerError err)]), l3)
                                    | (Returned u, l3) \<Rightarrow> register l3))))))"

text \<open>manage.go, lines 427-429.\<close>

definition CreateTask ::
  "bridge \<Rightarrow> TaskService \<Rightarrow> string \<Rightarrow> Definition \<Rightarrow> bool \<Rightarrow> native_call list
    \<Rightarrow> (RegisteredTask \<times> bool) result \<times> native_call list" where
  "CreateTask br t path newTaskDef overwrite log =
     CreateTaskEx br t path newTaskDef [] [] (LogonType (Principal newTaskDef)) overwrite log"

text \<open>manage.go, lines 487-508.\<close>

definition UpdateTaskEx ::
  "bridge \<Rightarrow> TaskService \<Rightarrow> string \<Rightarrow> Definition \<Rightarrow> string \<Rightarrow> string \<Rightarrow> TaskLogonType
    \<Rightarrow> native_call list \<Rightarrow> RegisteredTask result \<times> native_call list" where
  "UpdateTaskEx br t path newTaskDef username password logonType log =
     (case path of
        [] \<Rightarrow> (Panicked, log)
      | c # cs \<Rightarrow>
          if c \<noteq> BACKSLASH then (Failed ErrInvalidPath, log)
          else
            (case validateDefinition newTaskDef of
               Some err \<Rightarrow> (Failed err, log)
             | None \<Rightarrow>
                 (case modifyTask br t path newTaskDef username password logonType
                         TASK_UPDATE log of
                    (Panicked, l) \<Rightarrow> (Panicked, l)
                  | (Failed err, l) \<Rightarrow>
                      (Failed (Errorf ''error updating %s task: %v''
                                 [ArgStr path, ArgErr err]), l)
                  | (Returned newTaskObj, l) \<Rightarrow>
                      (case parseRegisteredTask br newTaskObj of
                         (newTask, p, Some err) \<Rightarrow>
                           (Failed (Errorf ''error parsing registered task %s: %v''
                                      [ArgStr path, ArgErr err]), l)
                       | (newTask, p, None) \<Rightarrow> (Returned newTask, l)))))"

text \<open>manage.go, lines 482-484.\<close>

definition UpdateTask ::
  "bridge \<Rightarrow> TaskService \<Rightarrow> string \<Rightarrow> Definition \<Rightarrow> native_call list
    \<Rightarrow> RegisteredTask result \<times> native_call list" where
  "UpdateTask br t path newTaskDef log =
     UpdateTaskEx br t path newTaskDef [] [] (LogonType (Principal newTaskDef)) log"

text \<open>
  manage.go, lines 575-586: \<open>oleutil.ForEach(tasks, deleteAllTasks)\<close>; the visitor
  deletes the task by its \<open>Path\<close> property.
\<close>

fun forEach_deleteAllTasks ::
  "bridge \<Rightarrow> TaskService \<Rightarrow> ntask list \<Rightarrow> native_call list \<Rightarrow> unit result \<times> native_call list" where
  "forEach_deleteAllTasks br t [] log = (Returned (), log)"
| "forEach_deleteAllTasks br t (taskObj # rest) log =
     (case DeleteTask br t (task_Path taskObj) log of
        (Panicked, l) \<Rightarrow> (Panicked, l)
      | (Failed e, l) \<Rightarrow> (Failed e, l)
      | (Returned u, l) \<Rightarrow> forEach_deleteAllTasks br t rest l)"

text \<open>
  manage.go, lines 588-632: the visitor \<open>deleteTasksRecursively\<close> of one subfolder object
  and its \<open>oleutil.ForEach\<close>.  The error of a failed folder deletion names the path given
  to \<open>DeleteFolder\<close>, as the source does.
\<close>

fun deleteTasksRecursively ::
  "bridge \<Rightarrow> TaskService \<Rightarrow> string \<Rightarrow> nfolder \<Rightarrow> native_call list
    \<Rightarrow> unit result \<times> native_call list"
  and forEach_deleteTasksRecursively ::
  "bridge \<Rightarrow> TaskService \<Rightarrow> string \<Rightarrow> nfolder list \<Rightarrow> native_call list
    \<Rightarrow> unit result \<times> native_call list" where
  "deleteTasksRecursively br t path (NFolder name currentFolderPath tasks subFolders) log =
     (case CallMethod br (Some ()) (Call_GetTasks currentFolderPath) log of
        (Panicked, l1) \<Rightarrow> (Panicked, l1)
      | (Failed err, l1) \<Rightarrow>
          (Failed (Errorf ''error getting tasks of folder: %v''
                     [ArgErr (getTaskSchedulerError err)]), l1)
      | (Returned u1, l1) \<Rightarrow>
          (case forEach_deleteAllTasks br t tasks l1 of
             (Panicked, l2) \<Rightarrow> (Panicked, l2)
           | (Failed e, l2) \<Rightarrow> (Failed e, l2)
           | (Returned u2, l2) \<Rightarrow>
               (case CallMethod br (Some ()) (Call_GetFolders currentFolderPath True) l2 of
                  (Panicked, l3) \<Rightarrow> (Panicked, l3)
                | (Failed err, l3) \<Rightarrow>
                    (Failed (Errorf ''error getting subfolders: %v''
                               [ArgErr (getTaskSchedulerError err)]), l3)
                | (Returned u3, l3) \<Rightarrow>
                    (case forEach_deleteTasksRecursively br t path subFolders l3 of
                       (Panicked, l4) \<Rightarrow> (Panicked, l4)
                     | (Failed e, l4) \<Rightarrow> (Failed e, l4)
                     | (Returned u4, l4) \<Rightarrow>
                         (case CallMethod br (rootFolderObj t)
                                 (Call_DeleteFolder currentFolderPath) l4 of
                            (Panicked, l5) \<Rightarrow> (Panicked, l5)
                          | (Failed err, l5) \<Rightarrow>
                              (Failed (Errorf ''error deleting task folder %s: %v''
                                         [ArgStr path, ArgErr (getTaskSchedulerError err)]), l5)
                          | (Returned u5, l5) \<Rightarrow> (Returned (), l5))))))"
| "forEach_deleteTasksRecursively br t path [] log = (Returned (), log)"
| "forEach_deleteTasksRecursively br t path (folderObj # rest) log =
     (case deleteTasksRecursively br t path folderObj log of
        (Panicked, l) \<Rightarrow> (Panicked, l)
      | (Failed e, l) \<Rightarrow> (Failed e, l)
      | (Returned u, l) \<Rightarrow> forEach_deleteTasksRecursively br t path rest l)"

text \<open>
  manage.go, lines 573-633: the body of \<open>if deleteRecursively\<close>, on the collections
  fetched from the folder object.
\<close>

definition DeleteFolder_contents ::
  "bridge \<Rightarrow> TaskService \<Rightarrow> string \<Rightarrow> nfolder \<Rightarrow> native_call list
    \<Rightarrow> unit result \<times> native_call list" where
  "DeleteFolder_contents br t path taskFolderObj log =
     (case forEach_deleteAllTasks br t (folder_Tasks taskFolderObj) log of
        (Panicked, l) \<Rightarrow> (Panicked, l)
      | (Failed e, l) \<Rightarrow> (Failed e, l)
      | (Returned u, l) \<Rightarrow>
          forEach_deleteTasksRecursively br t path (folder_Folders taskFolderObj) l)"

text \<open>
  manage.go, lines 539-642.  The result is the flag; with an error the Go function returns
  false.  The \<open>Count\<close> of a collection is the number of its items.
\<close>

definition DeleteFolder ::
  "bridge \<Rightarrow> TaskService \<Rightarrow> string \<Rightarrow> bool \<Rightarrow> native_call list
    \<Rightarrow> bool result \<times> native_call list" where
  "DeleteFolder br t path deleteRecursively log =
     (case path of
        [] \<Rightarrow> (Panicked, log)
      | c # cs \<Rightarrow>
          if c \<noteq> BACKSLASH then (Failed ErrInvalidPath, log)
          else
            (case service_GetFolder br t path log of
               (Panicked, l0) \<Rightarrow> (Panicked, l0)
             | (Failed err, l0) \<Rightarrow>
                 (Failed (Errorf ''error getting folder: %v''
                            [ArgErr (getTaskSchedulerError err)]), l0)
             | (Returned taskFolderObj, l0) \<Rightarrow>
                 (case CallMethod br (Some ()) (Call_GetTasks (folder_Path taskFolderObj)) l0 of
                    (Panicked, l1) \<Rightarrow> (Panicked, l1)
                  | (Failed err, l1) \<Rightarrow>
                      (Failed (Errorf ''error getting tasks of folder: %v''
                                 [ArgErr (getTaskSchedulerError err)]), l1)
                  | (Returned u1, l1) \<Rightarrow>
                      if \<not> deleteRecursively \<and> int (length (folder_Tasks taskFolderObj)) > 0
                      then (Returned False, l1)
                      else
                        (case CallMethod br (Some ())
                                (Call_GetFolders (folder_Path taskFolderObj) True) l1 of
                           (Panicked, l2) \<Rightarrow> (Panicked, l2)
                         | (Failed err, l2) \<Rightarrow>
                             (Failed (Errorf ''error getting the subfolders: %v''
                                        [ArgErr (getTaskSchedulerError err)]), l2)
                         | (Returned u2, l2) \<Rightarrow>
                             if \<not> deleteRecursively
                                \<and> int (length (folder_Folders taskFolderObj)) > 0
                             then (Returned False, l2)
                             else
                               (case (if deleteRecursively
                                      then DeleteFolder_contents br t path taskFolderObj l2
                                      else (Returned (), l2)) of
                                  (Panicked, l4) \<Rightarrow> (Panicked, l4)
                                | (Failed e, l4) \<Rightarrow> (Failed e, l4)
                                | (Returned u4, l4) \<Rightarrow>
                                    (case CallMethod br (rootFolderObj t)
                                            (Call_DeleteFolder path) l4 of
                                       (Panicked, l5) \<Rightarrow> (Panicked, l5)
                                     | (Failed err, l5) \<Rightarrow>
                                         (Failed (Errorf ''error deleting task folder %s: %v''
                                                    [ArgStr path,
                                                     ArgErr (getTaskSchedulerError err)]), l5)
                                     | (Returned u5, l5) \<Rightarrow> (Returned True, l5)))))))"

section \<open>Specification vocabulary\<close>

text \<open>
  A connection whose handles are present whenever it is marked connected: the zero value,
  every result of a successful connect, and whatever \<open>Disconnect\<close> leaves behind.
\<close>

definition handles_present :: "TaskService \<Rightarrow> bool" where
  "handles_present t = (isConnected t \<longrightarrow> taskServiceObj t \<noteq> None \<and> rootFolderObj t \<noteq> None)"

text \<open>The zero value \<open>TaskService{}\<close>, and a connection as a successful connect returns it.\<close>

definition zero_TaskService :: TaskService where
  "zero_TaskService =
     \<lparr>taskServiceObj = None, rootFolderObj = None, isInitialized = False, isConnected = False,
      connectedDomain = [], connectedComputerName = [], connectedUser = []\<rparr>"

definition example_TaskService :: TaskService where
  "example_TaskService =
     \<lparr>taskServiceObj = Some (IDispatch 1), rootFolderObj = Some (IDispatch 2),
      isInitialized = True, isConnected = True,
      connectedDomain = ''HOST'', connectedComputerName = ''HOST'', connectedUser = ''alice''\<rparr>"

text \<open>
  A service for examples: the root folder holds no task and one folder \<open>A\<close>, which holds
  one task and one folder \<open>B\<close>, which holds one task.  Paths are resolved by search in
  this tree, no native call fails, and the parser reads the path and the definition off the
  task object.
\<close>

definition example_task_A :: ntask where
  "example_task_A =
     NTask (BACKSLASH # ''A'' @ BACKSLASH # ''TaskA'') (NewTaskDefinition example_TaskService 0)"

definition example_task_B :: ntask where
  "example_task_B =
     NTask (BACKSLASH # ''A'' @ BACKSLASH # ''B'' @ BACKSLASH # ''TaskB'')
       (NewTaskDefinition example_TaskService 0)"

definition example_folder_B :: nfolder where
  "example_folder_B = NFolder ''B'' (BACKSLASH # ''A'' @ BACKSLASH # ''B'') [example_task_B] []"

definition example_folder_A :: nfolder where
  "example_folder_A = NFolder ''A'' (BACKSLASH # ''A'') [example_task_A] [example_folder_B]"

definition example_hierarchy :: nfolder where
  "example_hierarchy = NFolder [] [BACKSLASH] [] [example_folder_A]"

definition example_RegisteredTask :: "ntask \<Rightarrow> RegisteredTask" where
  "example_RegisteredTask task =
     \<lparr>rt_Name = drop (nat (LastIndex (task_Path task) BACKSLASH + 1)) (task_Path task),
      rt_Path = task_Path task,
      rt_Definition = task_Definition task,
      rt_Enabled = True\<rparr>"

definition example_parse :: "ntask \<Rightarrow> RegisteredTask \<times> string \<times> go_error option" where
  "example_parse task = (example_RegisteredTask task, task_Path task, None)"

definition example_bridge :: bridge where
  "example_bridge =
     \<lparr>hierarchy = example_hierarchy,
      folderAt = find_folder example_hierarchy,
      taskAt = find_task example_hierarchy,
      fault = (\<lambda>log c. None),
      parseRegisteredTask = example_parse\<rparr>"

text \<open>
  Definitions for examples: the defaults with one action, and the same with both
  identities of the principal set.
\<close>

definition example_Definition :: Definition where
  "example_Definition = (NewTaskDefinition example_TaskService 0)\<lparr>Actions := [Action 0]\<rparr>"

definition example_Definition_two_identities :: Definition where
  "example_Definition_two_identities =
     example_Definition\<lparr>Principal := (Principal example_Definition)
       \<lparr>UserID := ''HOST'' @ BACKSLASH # ''alice'', GroupID := ''Users''\<rparr>\<rparr>"

text \<open>A bridge on which no native call fails.\<close>

definition cooperative :: "bridge \<Rightarrow> bool" where
  "cooperative br = (\<forall>log c. fault br log c = None)"

text \<open>
  A log entry that writes or registers a definition does so with the definition \<open>d\<close>.
\<close>

fun marshals :: "Definition \<Rightarrow> native_call \<Rightarrow> bool" where
  "marshals d (Call_fillDefinitionObj d') = (d' = d)"
| "marshals d (Call_RegisterTaskDefinition path d' flags username password logonType) = (d' = d)"
| "marshals d c = True"

text \<open>
  An operation only appends to the log of native calls, and every call it appends
  satisfies \<open>P\<close>.
\<close>

definition only_adds ::
  "(native_call \<Rightarrow> bool) \<Rightarrow> 'a result \<times> native_call list \<Rightarrow> native_call list \<Rightarrow> bool" where
  "only_adds P r log = (\<exists>added. snd r = log @ added \<and> (\<forall>c \<in> set added. P c))"

text \<open>
  Vocabulary for the folder operations: the tasks in a folder and below it, the folders
  below it, and a path that begins with the root separator.
\<close>

fun tasks_below :: "nfolder \<Rightarrow> ntask list"
  and tasks_below_list :: "nfolder list \<Rightarrow> ntask list" where
  "tasks_below (NFolder n p ts fs) = ts @ tasks_below_list fs"
| "tasks_below_list [] = []"
| "tasks_below_list (g # gs) = tasks_below g @ tasks_below_list gs"

fun folders_below :: "nfolder \<Rightarrow> nfolder list"
  and folders_below_list :: "nfolder list \<Rightarrow> nfolder list" where
  "folders_below (NFolder n p ts fs) = folders_below_list fs"
| "folders_below_list [] = []"
| "folders_below_list (g # gs) = g # folders_below g @ folders_below_list gs"

definition rooted :: "string \<Rightarrow> bool" where
  "rooted path = (case path of [] \<Rightarrow> False | c # cs \<Rightarrow> c = BACKSLASH)"

text \<open>The calls that delete something.\<close>

fun is_delete :: "native_call \<Rightarrow> bool" where
  "is_delete (Call_DeleteTask path) = True"
| "is_delete (Call_DeleteFolder path) = True"
| "is_delete c = False"

text \<open>
  The deletions that empty a folder, in post-order: the tasks of the folder, then, for each
  of its folders in turn, the deletions that empty that folder followed by the deletion of
  that folder.  A folder is deleted before the tasks of its next sibling are.  This is the
  order of the amended statement of C7; it is not the order \<open>tasks_before_folders\<close> of
  the specification's sentence.
\<close>

fun deletes_in :: "nfolder \<Rightarrow> native_call list"
  and deletes_of_list :: "nfolder list \<Rightarrow> native_call list" where
  "deletes_in (NFolder n p ts fs) =
     map (\<lambda>x. Call_DeleteTask (task_Path x)) ts @ deletes_of_list fs"
| "deletes_of_list [] = []"
| "deletes_of_list (g # gs) =
     deletes_in g @ [Call_DeleteFolder (folder_Path g)] @ deletes_of_list gs"

text \<open>
  The TaskFolder node that mirrors a folder of the service: its name, its path, its tasks
  as parsed, and the mirrors of its folders, in the order of the service.
\<close>

fun mirror :: "bridge \<Rightarrow> nfolder \<Rightarrow> TaskFolder"
  and mirror_list :: "bridge \<Rightarrow> nfolder list \<Rightarrow> TaskFolder list" where
  "mirror br (NFolder n p ts fs) =
     TaskFolder n p (map (\<lambda>x. fst (parseRegisteredTask br x)) ts) (mirror_list br fs)"
| "mirror_list br [] = []"
| "mirror_list br (g # gs) = mirror br g # mirror_list br gs"





text \<open>
  A service whose root holds the folder \<open>S\<close>, which holds no task and two folders
  \<open>B\<close> and \<open>C\<close> with one task each.
\<close>

definition example_task_TB :: ntask where
  "example_task_TB =
     NTask (BACKSLASH # ''S'' @ BACKSLASH # ''B'' @ BACKSLASH # ''TB'')
       (NewTaskDefinition example_TaskService 0)"

definition example_task_TC :: ntask where
  "example_task_TC =
     NTask (BACKSLASH # ''S'' @ BACKSLASH # ''C'' @ BACKSLASH # ''TC'')
       (NewTaskDefinition example_TaskService 0)"

definition example_folder_S :: nfolder where
  "example_folder_S =
     NFolder ''S'' (BACKSLASH # ''S'') []
       [NFolder ''B'' (BACKSLASH # ''S'' @ BACKSLASH # ''B'') [example_task_TB] [],
        NFolder ''C'' (BACKSLASH # ''S'' @ BACKSLASH # ''C'') [example_task_TC] []]"

definition example_hierarchy_siblings :: nfolder where
  "example_hierarchy_siblings = NFolder [] [BACKSLASH] [] [example_folder_S]"

definition example_bridge_siblings :: bridge where
  "example_bridge_siblings =
     \<lparr>hierarchy = example_hierarchy_siblings,
      folderAt = find_folder example_hierarchy_siblings,
      taskAt = find_task example_hierarchy_siblings,
      fault = (\<lambda>log c. None),
      parseRegisteredTask = example_parse\<rparr>"

text \<open>
  The order of deletions in the words of the specification for the recursive
  \<open>DeleteFolder\<close>: all tasks first, the folders after them.  In a log of calls, the
  deletions are then the task deletions followed by the folder deletions.
\<close>

fun is_task_delete :: "native_call \<Rightarrow> bool" where
  "is_task_delete (Call_DeleteTask path) = True"
| "is_task_delete c = False"

fun is_folder_delete :: "native_call \<Rightarrow> bool" where
  "is_folder_delete (Call_DeleteFolder path) = True"
| "is_folder_delete c = False"

definition tasks_before_folders :: "native_call list \<Rightarrow> bool" where
  "tasks_before_folders calls =
     (filter is_delete calls = filter is_task_delete calls @ filter is_folder_delete calls)"

section \<open>Properties of the error translation\<close>

lemma unat_ucast_32_64: "unat (ucast (code :: 32 word) :: 64 word) = unat code"
proof -
  have "unat code < 2 ^ 32"
    using unsigned_less [of code] by simp
  then have "unat code < 2 ^ 64"
    by simp
  then show ?thesis
    by (simp add: unsigned_ucast_eq take_bit_nat_eq_self)
qed

text \<open>
  C3.  Whenever a numeric code is extracted from a native failure (the extraction returns
  the code and no error), \<open>getTaskSchedulerError\<close> maps 50 to \<open>ErrTargetUnsupported\<close>,
  53 and 0x80070032 to \<open>ErrConnectionFailure\<close> and every other code to the
  \<open>syscall.Errno\<close> of that code; \<open>getRunningTaskError\<close> maps 0x8004130B to
  \<open>ErrRunningTaskCompleted\<close> and every other code to the \<open>Errno\<close> of that code.  This
  holds for errors.go and for part_000, and the \<open>Errno\<close> has the numeric value of the
  code.
\<close>

theorem error_code_mapping:
  "(getOLEErrorCode err = (code, None) \<longrightarrow>
      getTaskSchedulerError err =
        (if code = 50 then ErrTargetUnsupported
         else if code = 53 \<or> code = 0x80070032 then ErrConnectionFailure
         else Errno (ucast code)) \<and>
      getRunningTaskError err =
        (if code = 0x8004130B then ErrRunningTaskCompleted else Errno (ucast code))) \<and>
   (getOLEErrorCode_part000 err = (code, None) \<longrightarrow>
      getTaskSchedulerError_part000 err =
        (if code = 50 then ErrTargetUnsupported
         else if code = 53 \<or> code = 0x80070032 then ErrConnectionFailure
         else Errno (ucast code)) \<and>
      getRunningTaskError_part000 err =
        (if code = 0x8004130B then ErrRunningTaskCompleted else Errno (ucast code))) \<and>
   unat (ucast code :: 64 word) = unat code"
  by (simp add: getTaskSchedulerError_def getRunningTaskError_def
      getTaskSchedulerError_part000_def getRunningTaskError_part000_def unat_ucast_32_64)

theorem error_code_mapping_witness:
  "getOLEErrorCode (OleError 0x80020009 (EXCEPINFO 0x80070032)) = (0x80070032, None) \<and>
   getTaskSchedulerError (OleError 0x80020009 (EXCEPINFO 0x80070032)) = ErrConnectionFailure \<and>
   getRunningTaskError (OleError 0x80020009 (EXCEPINFO 0x80070032)) = Errno 0x80070032 \<and>
   getOLEErrorCode_part000 (OleError 0x80070032 NoSubError) = (0x80070032, None) \<and>
   getTaskSchedulerError_part000 (OleError 0x80070032 NoSubError) = ErrConnectionFailure \<and>
   getRunningTaskError_part000 (OleError 0x80070032 NoSubError) = Errno 0x80070032"
  using error_code_mapping [of "OleError 0x80020009 (EXCEPINFO 0x80070032)" "0x80070032"]
    error_code_mapping [of "OleError 0x80070032 NoSubError" "0x80070032"]
  by simp

text \<open>
  C6, as stated, fails.  An \<open>OleError\<close> with code 5 and no sub-error is decoded by
  part_000 and rejected by errors.go; with code 5 and an \<open>EXCEPINFO\<close> of SCODE 7 the two
  return different codes; with code 50 and SCODE 53 the two translators return different
  typed errors.
\<close>

theorem getOLEErrorCode_versions_differ:
  "getOLEErrorCode (OleError 5 NoSubError) =
     (5, Some (ErrorsNew ''failed to extract OLE sub-error code'')) \<and>
   getOLEErrorCode_part000 (OleError 5 NoSubError) = (5, None) \<and>
   getOLEErrorCode (OleError 5 (EXCEPINFO 7)) = (7, None) \<and>
   getOLEErrorCode_part000 (OleError 5 (EXCEPINFO 7)) = (5, None) \<and>
   getTaskSchedulerError (OleError 50 (EXCEPINFO 53)) = ErrConnectionFailure \<and>
   getTaskSchedulerError_part000 (OleError 50 (EXCEPINFO 53)) = ErrTargetUnsupported"
  by (simp add: getTaskSchedulerError_def getTaskSchedulerError_part000_def)

text \<open>
  C6, amended.
  \<^item> errors.go returns the SCODE and no error on every \<open>OleError\<close> whose sub-error is an
    \<open>EXCEPINFO\<close>, whatever its direct code, and succeeds on no other input.
  \<^item> part_000 returns on such an input the SCODE when the direct code is zero and the
    direct code, cut to 32 bits, otherwise.  It also succeeds, with the direct code, on
    every \<open>OleError\<close> with a direct code other than zero, whatever its sub-error, and
    succeeds on no input other than these.  So every input that errors.go decodes is
    decoded by part_000.
  \<^item> Both fail with code 0 on an error that is not an \<open>OleError\<close>.
  \<^item> On every input from which both extract the same code, the two
    \<open>getTaskSchedulerError\<close> return the same typed error.
\<close>

theorem getOLEErrorCode_versions_agreement:
  "getOLEErrorCode (OleError hr (EXCEPINFO sc)) = (sc, None) \<and>
   getOLEErrorCode_part000 (OleError hr (EXCEPINFO sc)) =
     (if hr = 0 then sc else ucast hr, None) \<and>
   (hr \<noteq> 0 \<longrightarrow> getOLEErrorCode_part000 (OleError hr sub) = (ucast hr, None)) \<and>
   (getOLEErrorCode err = (c, None) \<longrightarrow>
      (\<exists>hr. err = OleError hr (EXCEPINFO c) \<and>
            getOLEErrorCode_part000 err = (if hr = 0 then c else ucast hr, None))) \<and>
   (getOLEErrorCode_part000 err = (c, None) \<longrightarrow>
      (\<exists>hr sub. err = OleError hr sub \<and>
         (if hr = 0 then sub = EXCEPINFO c else c = ucast hr))) \<and>
   ((\<forall>hr sub. err \<noteq> OleError hr sub) \<longrightarrow>
      getOLEErrorCode err = (0, Some (ErrorsNew ''failed to extract OLE error code'')) \<and>
      getOLEErrorCode_part000 err =
        (0, Some (ErrorsNew ''could not determine OLE error code''))) \<and>
   (getOLEErrorCode err = (c, None) \<and> getOLEErrorCode_part000 err = (c, None) \<longrightarrow>
      getTaskSchedulerError err = getTaskSchedulerError_part000 err)"
proof (intro conjI impI)
  show "getOLEErrorCode (OleError hr (EXCEPINFO sc)) = (sc, None)"
    by simp
next
  show "getOLEErrorCode_part000 (OleError hr (EXCEPINFO sc)) =
      (if hr = 0 then sc else ucast hr, None)"
    by simp
next
  assume "hr \<noteq> 0"
  then show "getOLEErrorCode_part000 (OleError hr sub) = (ucast hr, None)"
    by simp
next
  assume "getOLEErrorCode err = (c, None)"
  then show "\<exists>hr. err = OleError hr (EXCEPINFO c) \<and>
      getOLEErrorCode_part000 err = (if hr = 0 then c else ucast hr, None)"
    by (cases err rule: getOLEErrorCode.cases) auto
next
  assume "getOLEErrorCode_part000 err = (c, None)"
  then show "\<exists>hr sub. err = OleError hr sub \<and>
      (if hr = 0 then sub = EXCEPINFO c else c = ucast hr)"
    by (cases err) (auto split: if_splits sub_error.splits)
next
  assume "\<forall>hr sub. err \<noteq> OleError hr sub"
  then show "getOLEErrorCode err = (0, Some (ErrorsNew ''failed to extract OLE error code''))"
    by (cases err) auto
next
  assume "\<forall>hr sub. err \<noteq> OleError hr sub"
  then show "getOLEErrorCode_part000 err =
      (0, Some (ErrorsNew ''could not determine OLE error code''))"
    by (cases err) auto
next
  assume "getOLEErrorCode err = (c, None) \<and> getOLEErrorCode_part000 err = (c, None)"
  then show "getTaskSchedulerError err = getTaskSchedulerError_part000 err"
    by (simp add: getTaskSchedulerError_def getTaskSchedulerError_part000_def)
qed

theorem getOLEErrorCode_versions_agreement_witness:
  "getOLEErrorCode (OleError 5 (EXCEPINFO 53)) = (53, None) \<and>
   getOLEErrorCode_part000 (OleError 5 (EXCEPINFO 53)) = (5, None) \<and>
   getOLEErrorCode_part000 (OleError 5 OtherSubError) = (5, None) \<and>
   getOLEErrorCode (OleError 0 (EXCEPINFO 53)) = (53, None) \<and>
   getOLEErrorCode_part000 (OleError 0 (EXCEPINFO 53)) = (53, None) \<and>
   getTaskSchedulerError (OleError 0 (EXCEPINFO 53)) =
     getTaskSchedulerError_part000 (OleError 0 (EXCEPINFO 53)) \<and>
   getOLEErrorCode ErrInvalidPath = (0, Some (ErrorsNew ''failed to extract OLE error code'')) \<and>
   getOLEErrorCode_part000 ErrInvalidPath =
     (0, Some (ErrorsNew ''could not determine OLE error code''))"
  using getOLEErrorCode_versions_agreement
      [where hr = 5 and sc = 53 and sub = OtherSubError and err = "OleError 0 (EXCEPINFO 53)"
         and c = 53]
    getOLEErrorCode_versions_agreement
      [where hr = 0 and sc = 53 and sub = NoSubError and err = ErrInvalidPath and c = 0]
  by simp

section \<open>Properties of the connection\<close>

text \<open>
  C9.  \<open>NewTaskDefinition\<close> returns a definition with the interactive-token logon type,
  the limited-user run level, the author \<open>connectedDomain\<close>, a backslash,
  \<open>connectedUser\<close>, an idle duration of 10 minutes, an idle wait timeout of 1 hour, an
  execution time limit of 72 hours and priority 7.  It takes no bridge and no log of calls:
  its value is the same whatever the handles and the flags of the connection are.
\<close>

theorem NewTaskDefinition_defaults:
  "LogonType (Principal (NewTaskDefinition t now)) = TASK_LOGON_INTERACTIVE_TOKEN \<and>
   RunLevel (Principal (NewTaskDefinition t now)) = TASK_RUNLEVEL_LUA \<and>
   Author (RegistrationInfo (NewTaskDefinition t now)) =
     connectedDomain t @ [BACKSLASH] @ connectedUser t \<and>
   IdleDuration (IdleSettings (Settings (NewTaskDefinition t now))) =
     \<lparr>Hours = 0, Minutes = 10, Seconds = 0\<rparr> \<and>
   WaitTimeout (IdleSettings (Settings (NewTaskDefinition t now))) =
     \<lparr>Hours = 1, Minutes = 0, Seconds = 0\<rparr> \<and>
   TimeLimit (Settings (NewTaskDefinition t now)) = \<lparr>Hours = 72, Minutes = 0, Seconds = 0\<rparr> \<and>
   Priority (Settings (NewTaskDefinition t now)) = 7 \<and>
   NewTaskDefinition (t\<lparr>taskServiceObj := s, rootFolderObj := r, isInitialized := i,
      isConnected := c, connectedComputerName := n\<rparr>) now = NewTaskDefinition t now"
  by (simp add: NewTaskDefinition_def NewHMS_def)

text \<open>
  C10.  On a connection that is neither connected nor initialized, \<open>Disconnect\<close> releases
  nothing and leaves the connection as it is.  It never returns an error, and it returns
  on every connection whose handles are present when it is marked connected.  After a
  call that returned, both flags are false and a second call releases nothing and changes
  nothing.
\<close>

theorem Disconnect_idempotent:
  "(\<not> isConnected t \<and> \<not> isInitialized t \<longrightarrow> Disconnect t = Returned (t, [])) \<and>
   (handles_present t \<longrightarrow> (\<exists>t' released. Disconnect t = Returned (t', released))) \<and>
   Disconnect t \<noteq> Failed e \<and>
   (Disconnect t = Returned (t', released) \<longrightarrow>
      \<not> isInitialized t' \<and> \<not> isConnected t' \<and> Disconnect t' = Returned (t', []))"
  by (auto simp: Disconnect_def handles_present_def split: option.splits if_splits)

theorem Disconnect_idempotent_witness:
  "\<not> isConnected zero_TaskService \<and> \<not> isInitialized zero_TaskService \<and>
   Disconnect zero_TaskService = Returned (zero_TaskService, []) \<and>
   handles_present example_TaskService \<and>
   Disconnect example_TaskService =
     Returned (example_TaskService\<lparr>isInitialized := False, isConnected := False\<rparr>,
               [Release (IDispatch 1), Release (IDispatch 2), CoUninitialize]) \<and>
   Disconnect (example_TaskService\<lparr>isInitialized := False, isConnected := False\<rparr>) =
     Returned (example_TaskService\<lparr>isInitialized := False, isConnected := False\<rparr>, [])"
  using Disconnect_idempotent [of zero_TaskService]
    Disconnect_idempotent [of example_TaskService _
      "example_TaskService\<lparr>isInitialized := False, isConnected := False\<rparr>"
      "[Release (IDispatch 1), Release (IDispatch 2), CoUninitialize]"]
  by (simp add: Disconnect_def handles_present_def zero_TaskService_def example_TaskService_def)

section \<open>Properties of the path and definition checks\<close>

text \<open>
  C1, at the empty path.  Each path-taking operation reads \<open>path[0]\<close> first: on the empty
  string the index is out of range and the call panics, where the claim expects
  \<open>ErrInvalidPath\<close>.  No native call is made.
\<close>

theorem empty_path_panics:
  "GetRegisteredTask br t [] log = (Panicked, log) \<and>
   GetTaskFolder br t [] log = (Panicked, log) \<and>
   CreateTaskEx br t [] newTaskDef username password logonType overwrite log = (Panicked, log) \<and>
   UpdateTaskEx br t [] newTaskDef username password logonType log = (Panicked, log) \<and>
   DeleteFolder br t [] deleteRecursively log = (Panicked, log) \<and>
   DeleteTask br t [] log = (Panicked, log)"
  by (simp add: GetRegisteredTask_def GetTaskFolder_def CreateTaskEx_def UpdateTaskEx_def
      DeleteFolder_def DeleteTask_def)

text \<open>
  On every path with a first byte other than the backslash, each of the six operations
  returns \<open>ErrInvalidPath\<close> and leaves the log of native calls as it was.
\<close>

lemma invalid_path_rejected:
  assumes "c \<noteq> BACKSLASH"
  shows "GetRegisteredTask br t (c # cs) log = (Failed ErrInvalidPath, log)"
    and "GetTaskFolder br t (c # cs) log = (Failed ErrInvalidPath, log)"
    and "CreateTaskEx br t (c # cs) newTaskDef username password logonType overwrite log =
           (Failed ErrInvalidPath, log)"
    and "UpdateTaskEx br t (c # cs) newTaskDef username password logonType log =
           (Failed ErrInvalidPath, log)"
    and "DeleteFolder br t (c # cs) deleteRecursively log = (Failed ErrInvalidPath, log)"
    and "DeleteTask br t (c # cs) log = (Failed ErrInvalidPath, log)"
  using assms
  by (simp_all add: GetRegisteredTask_def GetTaskFolder_def CreateTaskEx_def UpdateTaskEx_def
      DeleteFolder_def DeleteTask_def)

text \<open>
  C2, as stated, fails: the path is checked before the definition.  With the path \<open>x\<close>
  and a definition without actions, both operations return \<open>ErrInvalidPath\<close>, not
  \<open>ErrNoActions\<close>.
\<close>

theorem invalid_definition_path_first:
  "CreateTaskEx example_bridge example_TaskService ''x''
     (NewTaskDefinition example_TaskService 0) [] [] TASK_LOGON_INTERACTIVE_TOKEN False [] =
     (Failed ErrInvalidPath, []) \<and>
   UpdateTaskEx example_bridge example_TaskService ''x''
     (NewTaskDefinition example_TaskService 0) [] [] TASK_LOGON_INTERACTIVE_TOKEN [] =
     (Failed ErrInvalidPath, []) \<and>
   Actions (NewTaskDefinition example_TaskService 0) = []"
  by (simp add: CreateTaskEx_def UpdateTaskEx_def NewTaskDefinition_def)

text \<open>
  C2, amended.  For every path that begins with the backslash and every definition whose
  Actions are empty or whose Principal has both UserID and GroupID set, \<open>CreateTaskEx\<close>
  and \<open>UpdateTaskEx\<close> return \<open>ErrNoActions\<close>, respectively \<open>ErrInvalidPrincipal\<close>,
  and the log of native calls is as it was: no native call is made.  For such a
  definition the log is as it was whatever the path is.
\<close>

theorem invalid_definition_rejected:
  assumes "Actions newTaskDef = [] \<or>
           (UserID (Principal newTaskDef) \<noteq> [] \<and> GroupID (Principal newTaskDef) \<noteq> [])"
  shows "CreateTaskEx br t (BACKSLASH # cs) newTaskDef username password logonType overwrite log =
           (Failed (if Actions newTaskDef = [] then ErrNoActions else ErrInvalidPrincipal), log) \<and>
         UpdateTaskEx br t (BACKSLASH # cs) newTaskDef username password logonType log =
           (Failed (if Actions newTaskDef = [] then ErrNoActions else ErrInvalidPrincipal), log) \<and>
         snd (CreateTaskEx br t path newTaskDef username password logonType overwrite log) = log \<and>
         snd (UpdateTaskEx br t path newTaskDef username password logonType log) = log"
proof -
  have v: "validateDefinition newTaskDef =
      Some (if Actions newTaskDef = [] then ErrNoActions else ErrInvalidPrincipal)"
    using assms by (auto simp: validateDefinition_def)
  show ?thesis
    by (cases path) (simp_all add: CreateTaskEx_def UpdateTaskEx_def v)
qed

theorem invalid_definition_rejected_witness:
  "Actions (NewTaskDefinition example_TaskService 0) = [] \<and>
   CreateTaskEx example_bridge example_TaskService (BACKSLASH # ''A'' @ BACKSLASH # ''TaskA'')
     (NewTaskDefinition example_TaskService 0) [] [] TASK_LOGON_INTERACTIVE_TOKEN True [] =
     (Failed ErrNoActions, []) \<and>
   UpdateTaskEx example_bridge example_TaskService (BACKSLASH # ''A'' @ BACKSLASH # ''TaskA'')
     (NewTaskDefinition example_TaskService 0) [] [] TASK_LOGON_INTERACTIVE_TOKEN [] =
     (Failed ErrNoActions, []) \<and>
   CreateTaskEx example_bridge example_TaskService (BACKSLASH # ''A'' @ BACKSLASH # ''TaskA'')
     example_Definition_two_identities [] [] TASK_LOGON_INTERACTIVE_TOKEN True [] =
     (Failed ErrInvalidPrincipal, []) \<and>
   UpdateTaskEx example_bridge example_TaskService (BACKSLASH # ''A'' @ BACKSLASH # ''TaskA'')
     example_Definition_two_identities [] [] TASK_LOGON_INTERACTIVE_TOKEN [] =
     (Failed ErrInvalidPrincipal, [])"
  using invalid_definition_rejected [of "NewTaskDefinition example_TaskService 0"
      example_bridge example_TaskService "''A'' @ BACKSLASH # ''TaskA''" "[]" "[]"
      TASK_LOGON_INTERACTIVE_TOKEN True "[]"]
    invalid_definition_rejected [of example_Definition_two_identities
      example_bridge example_TaskService "''A'' @ BACKSLASH # ''TaskA''" "[]" "[]"
      TASK_LOGON_INTERACTIVE_TOKEN True "[]"]
  by (simp add: NewTaskDefinition_def example_Definition_two_identities_def
      example_Definition_def)

section \<open>Properties of task creation and update\<close>

lemma CallMethod_cooperative:
  "cooperative br \<Longrightarrow> CallMethod br (Some h) c log = (Returned (), log @ [c])"
  by (simp add: CallMethod_def cooperative_def)

lemma scan_stops_at_separator:
  "c \<in> set s \<Longrightarrow> length (takeWhile (\<lambda>x. x \<noteq> c) s) < length s"
  by (induction s) auto

lemma LastIndex_nonneg: "c \<in> set s \<Longrightarrow> 0 \<le> LastIndex s c"
  using scan_stops_at_separator [of c "rev s"]
  by (simp add: LastIndex_def)

subsection \<open>What an operation appends to the log\<close>

lemma only_adds_refl: "only_adds P (x, log) log"
  by (simp add: only_adds_def)

lemma only_adds_trans: "only_adds P (x, l1) log \<Longrightarrow> only_adds P r l1 \<Longrightarrow> only_adds P r log"
  by (auto simp: only_adds_def)

lemma only_adds_bind:
  assumes "only_adds P X log"
    and "\<And>l. only_adds P (f1 l) l"
    and "\<And>e l. only_adds P (f2 e l) l"
    and "\<And>v l. only_adds P (f3 v l) l"
  shows "only_adds P
           (case X of
              (r, l) \<Rightarrow> (case r of Panicked \<Rightarrow> f1 l | Failed e \<Rightarrow> f2 e l | Returned v \<Rightarrow> f3 v l))
           log"
proof (cases X)
  case (Pair r l)
  with assms(1) have g: "only_adds P (r, l) log"
    by simp
  show ?thesis
    using Pair only_adds_trans [OF g assms(2)] only_adds_trans [OF g assms(3)]
      only_adds_trans [OF g assms(4)]
    by (cases r) simp_all
qed

lemma only_adds_CallMethod: "P c \<Longrightarrow> only_adds P (CallMethod br disp c log) log"
  by (auto simp: only_adds_def CallMethod_def split: option.splits)

lemma only_adds_parse:
  "only_adds P
     (case parseRegisteredTask br obj of
        (newTask, p, Some err) \<Rightarrow> (Failed (w err), l)
      | (newTask, p, None) \<Rightarrow> (Returned (k newTask), l)) l"
  by (simp add: only_adds_def split: prod.split option.split)

lemma only_adds_modifyTask:
  "only_adds (marshals (default_UserID t d))
     (modifyTask br t path d username password logonType flags log) log"
  by (auto simp: only_adds_def modifyTask_def fillDefinitionObj_def CallMethod_def Let_def
      split: option.splits)

lemma only_adds_taskFolderExist: "only_adds (marshals d) (taskFolderExist br t p log) log"
  by (auto simp: only_adds_def taskFolderExist_def service_GetFolder_def CallMethod_def
      split: option.splits)

lemma only_adds_registeredTaskExist: "only_adds (marshals d) (registeredTaskExist br t p log) log"
  by (auto simp: only_adds_def registeredTaskExist_def rootFolder_GetTask_def CallMethod_def
      split: option.splits)

lemma only_adds_GetRegisteredTask: "only_adds (marshals d) (GetRegisteredTask br t p log) log"
  by (auto simp: only_adds_def GetRegisteredTask_def rootFolder_GetTask_def CallMethod_def
      split: option.splits list.splits prod.splits)

lemma only_adds_UpdateTaskEx:
  "only_adds (marshals (default_UserID t d))
     (UpdateTaskEx br t path d username password logonType log) log"
  unfolding UpdateTaskEx_def
  apply (simp split: list.split option.split add: only_adds_refl)
  apply (intro allI impI conjI)
  apply ((intro allI impI conjI only_adds_bind only_adds_refl only_adds_modifyTask
      only_adds_parse | simp)+)
  done

lemma only_adds_CreateTaskEx:
  "only_adds (marshals (default_UserID t d))
     (CreateTaskEx br t path d username password logonType overwrite log) log"
  unfolding CreateTaskEx_def Let_def
  apply (simp split: list.split option.split add: only_adds_refl)
  apply (intro allI impI conjI)
  apply ((intro allI impI conjI only_adds_bind only_adds_refl only_adds_taskFolderExist
      only_adds_registeredTaskExist only_adds_GetRegisteredTask only_adds_CallMethod
      only_adds_modifyTask only_adds_parse | simp split: bool.split)+)
  done

lemma UpdateTaskEx_marshals_default:
  assumes "cooperative br"
    and "taskServiceObj t \<noteq> None" and "rootFolderObj t \<noteq> None"
    and "validateDefinition d = None"
  shows "UpdateTaskEx br t (BACKSLASH # cs) d username password logonType log =
     ((case parseRegisteredTask br (NTask (BACKSLASH # cs) (default_UserID t d)) of
         (newTask, p, Some err) \<Rightarrow>
           Failed (Errorf ''error parsing registered task %s: %v''
                     [ArgStr (BACKSLASH # cs), ArgErr err])
       | (newTask, p, None) \<Rightarrow> Returned newTask),
      log @ [Call_NewTask,
             Call_fillDefinitionObj (default_UserID t d),
             Call_RegisterTaskDefinition (BACKSLASH # cs) (default_UserID t d) TASK_UPDATE
               username password logonType])"
proof -
  obtain s r where h: "taskServiceObj t = Some s" "rootFolderObj t = Some r"
    using assms(2,3) by auto
  show ?thesis
    using assms(4) h
    by (auto simp: UpdateTaskEx_def modifyTask_def fillDefinitionObj_def Let_def
        CallMethod_cooperative [OF assms(1)] split: prod.splits option.splits)
qed

lemma CreateTaskEx_marshals_default:
  assumes "cooperative br"
    and "taskServiceObj t \<noteq> None" and "rootFolderObj t \<noteq> None"
    and "validateDefinition d = None"
    and "folderPath = take (nat (LastIndex (BACKSLASH # cs) BACKSLASH)) (BACKSLASH # cs)"
    and "overwrite \<or> folderAt br folderPath = None \<or> taskAt br (BACKSLASH # cs) = None"
  shows "snd (CreateTaskEx br t (BACKSLASH # cs) d username password logonType overwrite log) =
      log @ Call_GetFolder folderPath
          # (case folderAt br folderPath of
               None \<Rightarrow> [Call_CreateFolder folderPath]
             | Some folder \<Rightarrow>
                 Call_GetTask (BACKSLASH # cs)
                 # (case taskAt br (BACKSLASH # cs) of
                      None \<Rightarrow> []
                    | Some task \<Rightarrow> [Call_DeleteTask (BACKSLASH # cs)]))
          @ [Call_NewTask,
             Call_fillDefinitionObj (default_UserID t d),
             Call_RegisterTaskDefinition (BACKSLASH # cs) (default_UserID t d) TASK_CREATE
               username password logonType]"
proof -
  obtain s r where h: "taskServiceObj t = Some s" "rootFolderObj t = Some r"
    using assms(2,3) by auto
  have idx: "\<not> LastIndex (BACKSLASH # cs) BACKSLASH < 0"
    using LastIndex_nonneg [of BACKSLASH "BACKSLASH # cs"] by simp
  show ?thesis
    using assms(4,6) idx h unfolding assms(5)
    by (auto simp: CreateTaskEx_def Let_def taskFolderExist_def registeredTaskExist_def
        service_GetFolder_def rootFolder_GetTask_def GetRegisteredTask_def modifyTask_def
        fillDefinitionObj_def CallMethod_cooperative [OF assms(1)]
        split: prod.splits option.splits)
qed

text \<open>
  C8.  For a definition whose Principal has neither UserID nor GroupID, the validator does
  not report an invalid principal, and \<open>modifyTask\<close>, once \<open>NewTask\<close> has succeeded,
  fills the native definition object with the definition whose UserID is
  \<open>connectedDomain\<close>, a backslash, \<open>connectedUser\<close>, and registers that definition if
  the filling succeeds.  Every filling and every registration that \<open>CreateTaskEx\<close> and
  \<open>UpdateTaskEx\<close> add to the log carry that definition.  When the path begins with the
  backslash, the definition has an action, the connection holds its two handles and no
  native call fails, \<open>UpdateTaskEx\<close> issues \<open>NewTask\<close>, the filling with that
  definition and its registration, in this order and nothing else; and \<open>CreateTaskEx\<close>,
  unless it keeps an existing task (\<open>overwrite\<close> false, folder and task known to the
  service), ends its calls with \<open>NewTask\<close>, the filling with that definition and its
  registration.
\<close>

theorem default_identity_injected:
  assumes "UserID (Principal d) = []" and "GroupID (Principal d) = []"
  shows "validateDefinition d \<noteq> Some ErrInvalidPrincipal \<and>
    (taskServiceObj t \<noteq> None \<and> fault br log Call_NewTask = None \<longrightarrow>
       snd (modifyTask br t path d username password logonType flags log) =
         log @ [Call_NewTask,
                Call_fillDefinitionObj
                  (d\<lparr>Principal := (Principal d)
                       \<lparr>UserID := connectedDomain t @ [BACKSLASH] @ connectedUser t\<rparr>\<rparr>)]
             @ (if fault br (log @ [Call_NewTask])
                     (Call_fillDefinitionObj
                        (d\<lparr>Principal := (Principal d)
                             \<lparr>UserID := connectedDomain t @ [BACKSLASH] @ connectedUser t\<rparr>\<rparr>))
                     = None
                   \<and> rootFolderObj t \<noteq> None
                then [Call_RegisterTaskDefinition path
                        (d\<lparr>Principal := (Principal d)
                             \<lparr>UserID := connectedDomain t @ [BACKSLASH] @ connectedUser t\<rparr>\<rparr>)
                        flags username password logonType]
                else [])) \<and>
    only_adds
      (marshals (d\<lparr>Principal := (Principal d)
                    \<lparr>UserID := connectedDomain t @ [BACKSLASH] @ connectedUser t\<rparr>\<rparr>))
      (CreateTaskEx br t path d username password logonType overwrite log) log \<and>
    only_adds
      (marshals (d\<lparr>Principal := (Principal d)
                    \<lparr>UserID := connectedDomain t @ [BACKSLASH] @ connectedUser t\<rparr>\<rparr>))
      (UpdateTaskEx br t path d username password logonType log) log \<and>
    (cooperative br \<and> taskServiceObj t \<noteq> None \<and> rootFolderObj t \<noteq> None \<and> Actions d \<noteq> [] \<longrightarrow>
       snd (UpdateTaskEx br t (BACKSLASH # cs) d username password logonType log) =
         log @ [Call_NewTask,
                Call_fillDefinitionObj
                  (d\<lparr>Principal := (Principal d)
                       \<lparr>UserID := connectedDomain t @ [BACKSLASH] @ connectedUser t\<rparr>\<rparr>),
                Call_RegisterTaskDefinition (BACKSLASH # cs)
                  (d\<lparr>Principal := (Principal d)
                       \<lparr>UserID := connectedDomain t @ [BACKSLASH] @ connectedUser t\<rparr>\<rparr>)
                  TASK_UPDATE username password logonType] \<and>
       (overwrite
        \<or> folderAt br (take (nat (LastIndex (BACKSLASH # cs) BACKSLASH)) (BACKSLASH # cs)) = None
        \<or> taskAt br (BACKSLASH # cs) = None \<longrightarrow>
          snd (CreateTaskEx br t (BACKSLASH # cs) d username password logonType overwrite log) =
            log @ Call_GetFolder (take (nat (LastIndex (BACKSLASH # cs) BACKSLASH)) (BACKSLASH # cs))
                # (case folderAt br
                          (take (nat (LastIndex (BACKSLASH # cs) BACKSLASH)) (BACKSLASH # cs)) of
                     None \<Rightarrow>
                       [Call_CreateFolder
                          (take (nat (LastIndex (BACKSLASH # cs) BACKSLASH)) (BACKSLASH # cs))]
                   | Some folder \<Rightarrow>
                       Call_GetTask (BACKSLASH # cs)
                       # (case taskAt br (BACKSLASH # cs) of
                            None \<Rightarrow> []
                          | Some task \<Rightarrow> [Call_DeleteTask (BACKSLASH # cs)]))
                @ [Call_NewTask,
                   Call_fillDefinitionObj
                     (d\<lparr>Principal := (Principal d)
                          \<lparr>UserID := connectedDomain t @ [BACKSLASH] @ connectedUser t\<rparr>\<rparr>),
                   Call_RegisterTaskDefinition (BACKSLASH # cs)
                     (d\<lparr>Principal := (Principal d)
                          \<lparr>UserID := connectedDomain t @ [BACKSLASH] @ connectedUser t\<rparr>\<rparr>)
                     TASK_CREATE username password logonType]))"
proof -
  have d': "default_UserID t d =
      d\<lparr>Principal := (Principal d)
          \<lparr>UserID := connectedDomain t @ [BACKSLASH] @ connectedUser t\<rparr>\<rparr>"
    using assms by (simp add: default_UserID_def)
  have v: "Actions d \<noteq> [] \<Longrightarrow> validateDefinition d = None"
    using assms by (simp add: validateDefinition_def)
  have c1: "validateDefinition d \<noteq> Some ErrInvalidPrincipal"
    using assms by (simp add: validateDefinition_def)
  have c2: "taskServiceObj t \<noteq> None \<and> fault br log Call_NewTask = None \<longrightarrow>
       snd (modifyTask br t path d username password logonType flags log) =
         log @ [Call_NewTask, Call_fillDefinitionObj (default_UserID t d)]
             @ (if fault br (log @ [Call_NewTask]) (Call_fillDefinitionObj (default_UserID t d))
                     = None
                   \<and> rootFolderObj t \<noteq> None
                then [Call_RegisterTaskDefinition path (default_UserID t d)
                        flags username password logonType]
                else [])"
    by (auto simp: modifyTask_def fillDefinitionObj_def CallMethod_def Let_def
        split: option.splits)
  have c5: "cooperative br \<and> taskServiceObj t \<noteq> None \<and> rootFolderObj t \<noteq> None
        \<and> Actions d \<noteq> [] \<longrightarrow>
      snd (UpdateTaskEx br t (BACKSLASH # cs) d username password logonType log) =
        log @ [Call_NewTask,
               Call_fillDefinitionObj (default_UserID t d),
               Call_RegisterTaskDefinition (BACKSLASH # cs) (default_UserID t d) TASK_UPDATE
                 username password logonType]"
    using UpdateTaskEx_marshals_default [of br t d cs username password logonType log] v
    by simp
  have c6: "cooperative br \<and> taskServiceObj t \<noteq> None \<and> rootFolderObj t \<noteq> None
        \<and> Actions d \<noteq> [] \<longrightarrow>
      (overwrite
        \<or> folderAt br (take (nat (LastIndex (BACKSLASH # cs) BACKSLASH)) (BACKSLASH # cs)) = None
        \<or> taskAt br (BACKSLASH # cs) = None \<longrightarrow>
          snd (CreateTaskEx br t (BACKSLASH # cs) d username password logonType overwrite log) =
            log @ Call_GetFolder (take (nat (LastIndex (BACKSLASH # cs) BACKSLASH)) (BACKSLASH # cs))
                # (case folderAt br
                          (take (nat (LastIndex (BACKSLASH # cs) BACKSLASH)) (BACKSLASH # cs)) of
                     None \<Rightarrow>
                       [Call_CreateFolder
                          (take (nat (LastIndex (BACKSLASH # cs) BACKSLASH)) (BACKSLASH # cs))]
                   | Some folder \<Rightarrow>
                       Call_GetTask (BACKSLASH # cs)
                       # (case taskAt br (BACKSLASH # cs) of
                            None \<Rightarrow> []
                          | Some task \<Rightarrow> [Call_DeleteTask (BACKSLASH # cs)]))
                @ [Call_NewTask,
                   Call_fillDefinitionObj (default_UserID t d),
                   Call_RegisterTaskDefinition (BACKSLASH # cs) (default_UserID t d)
                     TASK_CREATE username password logonType])"
  proof (intro impI)
    assume a: "cooperative br \<and> taskServiceObj t \<noteq> None \<and> rootFolderObj t \<noteq> None
        \<and> Actions d \<noteq> []"
      and b: "overwrite
        \<or> folderAt br (take (nat (LastIndex (BACKSLASH # cs) BACKSLASH)) (BACKSLASH # cs)) = None
        \<or> taskAt br (BACKSLASH # cs) = None"
    from a v have a1: "cooperative br" and a2: "taskServiceObj t \<noteq> None"
      and a3: "rootFolderObj t \<noteq> None" and a4: "validateDefinition d = None"
      by simp_all
    show "snd (CreateTaskEx br t (BACKSLASH # cs) d username password logonType overwrite log) =
            log @ Call_GetFolder (take (nat (LastIndex (BACKSLASH # cs) BACKSLASH)) (BACKSLASH # cs))
                # (case folderAt br
                          (take (nat (LastIndex (BACKSLASH # cs) BACKSLASH)) (BACKSLASH # cs)) of
                     None \<Rightarrow>
                       [Call_CreateFolder
                          (take (nat (LastIndex (BACKSLASH # cs) BACKSLASH)) (BACKSLASH # cs))]
                   | Some folder \<Rightarrow>
                       Call_GetTask (BACKSLASH # cs)
                       # (case taskAt br (BACKSLASH # cs) of
                            None \<Rightarrow> []
                          | Some task \<Rightarrow> [Call_DeleteTask (BACKSLASH # cs)]))
                @ [Call_NewTask,
                   Call_fillDefinitionObj (default_UserID t d),
                   Call_RegisterTaskDefinition (BACKSLASH # cs) (default_UserID t d)
                     TASK_CREATE username password logonType]"
      by (rule CreateTaskEx_marshals_default [OF a1 a2 a3 a4 refl b])
  qed
  show ?thesis
    using c1 c2 c5 c6
      only_adds_CreateTaskEx [of t d br path username password logonType overwrite log]
      only_adds_UpdateTaskEx [of t d br path username password logonType log]
    by (simp only: d') simp
qed

theorem default_identity_injected_witness:
  "UserID (Principal example_Definition) = [] \<and>
   GroupID (Principal example_Definition) = [] \<and>
   Actions example_Definition \<noteq> [] \<and>
   cooperative example_bridge \<and>
   taskServiceObj example_TaskService \<noteq> None \<and>
   rootFolderObj example_TaskService \<noteq> None \<and>
   fault example_bridge [] Call_NewTask = None \<and>
   UserID (Principal (example_Definition\<lparr>Principal := (Principal example_Definition)
           \<lparr>UserID := ''HOST'' @ [BACKSLASH] @ ''alice''\<rparr>\<rparr>)) =
     ''HOST'' @ [BACKSLASH] @ ''alice'' \<and>
   snd (modifyTask example_bridge example_TaskService (BACKSLASH # ''T'') example_Definition
          [] [] TASK_LOGON_INTERACTIVE_TOKEN TASK_UPDATE []) =
     [Call_NewTask,
      Call_fillDefinitionObj
        (example_Definition\<lparr>Principal := (Principal example_Definition)
           \<lparr>UserID := ''HOST'' @ [BACKSLASH] @ ''alice''\<rparr>\<rparr>),
      Call_RegisterTaskDefinition (BACKSLASH # ''T'')
        (example_Definition\<lparr>Principal := (Principal example_Definition)
           \<lparr>UserID := ''HOST'' @ [BACKSLASH] @ ''alice''\<rparr>\<rparr>)
        TASK_UPDATE [] [] TASK_LOGON_INTERACTIVE_TOKEN] \<and>
   snd (UpdateTaskEx example_bridge example_TaskService (BACKSLASH # ''T'') example_Definition
          [] [] TASK_LOGON_INTERACTIVE_TOKEN []) =
     [Call_NewTask,
      Call_fillDefinitionObj
        (example_Definition\<lparr>Principal := (Principal example_Definition)
           \<lparr>UserID := ''HOST'' @ [BACKSLASH] @ ''alice''\<rparr>\<rparr>),
      Call_RegisterTaskDefinition (BACKSLASH # ''T'')
        (example_Definition\<lparr>Principal := (Principal example_Definition)
           \<lparr>UserID := ''HOST'' @ [BACKSLASH] @ ''alice''\<rparr>\<rparr>)
        TASK_UPDATE [] [] TASK_LOGON_INTERACTIVE_TOKEN] \<and>
   snd (CreateTaskEx example_bridge example_TaskService (BACKSLASH # ''A'' @ BACKSLASH # ''T'')
          example_Definition [] [] TASK_LOGON_INTERACTIVE_TOKEN False []) =
     [Call_GetFolder (BACKSLASH # ''A''),
      Call_GetTask (BACKSLASH # ''A'' @ BACKSLASH # ''T''),
      Call_NewTask,
      Call_fillDefinitionObj
        (example_Definition\<lparr>Principal := (Principal example_Definition)
           \<lparr>UserID := ''HOST'' @ [BACKSLASH] @ ''alice''\<rparr>\<rparr>),
      Call_RegisterTaskDefinition (BACKSLASH # ''A'' @ BACKSLASH # ''T'')
        (example_Definition\<lparr>Principal := (Principal example_Definition)
           \<lparr>UserID := ''HOST'' @ [BACKSLASH] @ ''alice''\<rparr>\<rparr>)
        TASK_CREATE [] [] TASK_LOGON_INTERACTIVE_TOKEN]"
proof -
  have a: "UserID (Principal example_Definition) = []"
    "GroupID (Principal example_Definition) = []"
    "Actions example_Definition \<noteq> []"
    by (simp_all add: example_Definition_def NewTaskDefinition_def)
  have c: "cooperative example_bridge"
    by (simp add: cooperative_def example_bridge_def)
  have n: "fault example_bridge l x = None" for l x
    by (simp add: example_bridge_def)
  have h: "taskServiceObj example_TaskService \<noteq> None"
    "rootFolderObj example_TaskService \<noteq> None"
    "connectedDomain example_TaskService = ''HOST''"
    "connectedUser example_TaskService = ''alice''"
    by (simp_all add: example_TaskService_def)
  have i: "take (nat (LastIndex (BACKSLASH # ''A'' @ BACKSLASH # ''T'') BACKSLASH))
             (BACKSLASH # ''A'' @ BACKSLASH # ''T'') = BACKSLASH # ''A''"
    by (simp add: LastIndex_def)
  have f: "folderAt example_bridge (BACKSLASH # ''A'') = Some example_folder_A"
    by (simp add: example_bridge_def example_hierarchy_def example_folder_A_def)
  have k: "taskAt example_bridge (BACKSLASH # ''A'' @ BACKSLASH # ''T'') = None"
    by (simp add: example_bridge_def example_hierarchy_def example_folder_A_def
        example_folder_B_def example_task_A_def example_task_B_def)
  show ?thesis
    using default_identity_injected [OF a(1,2), of example_TaskService example_bridge "[]"
        "BACKSLASH # ''T''" "[]" "[]" TASK_LOGON_INTERACTIVE_TOKEN TASK_UPDATE False "''T''"]
      default_identity_injected [OF a(1,2), of example_TaskService example_bridge "[]"
        "BACKSLASH # ''T''" "[]" "[]" TASK_LOGON_INTERACTIVE_TOKEN TASK_UPDATE False
        "''A'' @ BACKSLASH # ''T''", unfolded i]
      a c n h f k
    by simp
qed




section \<open>Properties of folder deletion\<close>

lemma DeleteTask_cooperative:
  assumes "cooperative br" and "rootFolderObj t \<noteq> None" and "rooted path"
  shows "DeleteTask br t path log = (Returned (), log @ [Call_DeleteTask path])"
  using assms
  by (auto simp: DeleteTask_def rooted_def CallMethod_cooperative split: list.splits)

lemma forEach_deleteAllTasks_cooperative:
  assumes "cooperative br" and "rootFolderObj t \<noteq> None"
  shows "\<forall>x \<in> set ts. rooted (task_Path x) \<Longrightarrow>
    forEach_deleteAllTasks br t ts log =
      (Returned (), log @ map (\<lambda>x. Call_DeleteTask (task_Path x)) ts)"
  by (induction ts arbitrary: log) (simp_all add: DeleteTask_cooperative [OF assms])

lemma deleteTasksRecursively_cooperative:
  assumes "cooperative br" and "rootFolderObj t \<noteq> None"
  shows "(\<forall>x \<in> set (tasks_below g). rooted (task_Path x)) \<longrightarrow>
     (\<forall>log. \<exists>added. deleteTasksRecursively br t path g log = (Returned (), log @ added) \<and>
        filter is_delete added = deletes_in g @ [Call_DeleteFolder (folder_Path g)])"
    and "(\<forall>x \<in> set (tasks_below_list gs). rooted (task_Path x)) \<longrightarrow>
     (\<forall>log. \<exists>added. forEach_deleteTasksRecursively br t path gs log = (Returned (), log @ added) \<and>
        filter is_delete added = deletes_of_list gs)"
proof (induction g and gs rule: tasks_below_tasks_below_list.induct)
  case (1 n p ts fs)
  show ?case
  proof (intro impI allI)
    fix log
    assume a: "\<forall>x \<in> set (tasks_below (NFolder n p ts fs)). rooted (task_Path x)"
    obtain r where r: "rootFolderObj t = Some r"
      using assms(2) by auto
    define l3 where "l3 = log @ [Call_GetTasks p] @ map (\<lambda>x. Call_DeleteTask (task_Path x)) ts
                 @ [Call_GetFolders p True]"
    have ih: "\<forall>log. \<exists>added. forEach_deleteTasksRecursively br t path fs log =
          (Returned (), log @ added) \<and> filter is_delete added = deletes_of_list fs"
      using a 1 by simp
    obtain added where
      rec: "forEach_deleteTasksRecursively br t path fs l3 = (Returned (), l3 @ added)"
      and del: "filter is_delete added = deletes_of_list fs"
      using ih by blast
    have ts: "forEach_deleteAllTasks br t ts (log @ [Call_GetTasks p]) =
        (Returned (), (log @ [Call_GetTasks p]) @ map (\<lambda>x. Call_DeleteTask (task_Path x)) ts)"
      using a by (intro forEach_deleteAllTasks_cooperative [OF assms]) simp
    have "deleteTasksRecursively br t path (NFolder n p ts fs) log =
        (Returned (), log @ ([Call_GetTasks p] @ map (\<lambda>x. Call_DeleteTask (task_Path x)) ts
                 @ [Call_GetFolders p True] @ added @ [Call_DeleteFolder p]))"
      using rec ts r by (simp add: CallMethod_cooperative [OF assms(1)] l3_def)
    moreover have "filter is_delete ([Call_GetTasks p] @ map (\<lambda>x. Call_DeleteTask (task_Path x)) ts
                 @ [Call_GetFolders p True] @ added @ [Call_DeleteFolder p]) =
        deletes_in (NFolder n p ts fs) @ [Call_DeleteFolder (folder_Path (NFolder n p ts fs))]"
      using del by (simp add: filter_map comp_def)
    ultimately show "\<exists>added. deleteTasksRecursively br t path (NFolder n p ts fs) log =
          (Returned (), log @ added) \<and>
        filter is_delete added =
          deletes_in (NFolder n p ts fs) @ [Call_DeleteFolder (folder_Path (NFolder n p ts fs))]"
      by blast
  qed
next
  case 2
  show ?case by simp
next
  case (3 g gs)
  show ?case
  proof (intro impI allI)
    fix log
    assume a: "\<forall>x \<in> set (tasks_below_list (g # gs)). rooted (task_Path x)"
    have ih1: "\<forall>log. \<exists>added. deleteTasksRecursively br t path g log =
          (Returned (), log @ added) \<and>
          filter is_delete added = deletes_in g @ [Call_DeleteFolder (folder_Path g)]"
      using a 3 by simp
    have ih2: "\<forall>log. \<exists>added. forEach_deleteTasksRecursively br t path gs log =
          (Returned (), log @ added) \<and> filter is_delete added = deletes_of_list gs"
      using a 3 by simp
    obtain a1 where
      g: "deleteTasksRecursively br t path g log = (Returned (), log @ a1)"
      and d1: "filter is_delete a1 = deletes_in g @ [Call_DeleteFolder (folder_Path g)]"
      using ih1 by blast
    obtain a2 where
      gs: "forEach_deleteTasksRecursively br t path gs (log @ a1) = (Returned (), (log @ a1) @ a2)"
      and d2: "filter is_delete a2 = deletes_of_list gs"
      using ih2 by blast
    have "forEach_deleteTasksRecursively br t path (g # gs) log = (Returned (), log @ (a1 @ a2))"
      using g gs by simp
    moreover have "filter is_delete (a1 @ a2) = deletes_of_list (g # gs)"
      using d1 d2 by simp
    ultimately show "\<exists>added. forEach_deleteTasksRecursively br t path (g # gs) log =
          (Returned (), log @ added) \<and> filter is_delete added = deletes_of_list (g # gs)"
      by blast
  qed
qed


lemma deletes_cover_tasks:
  "x \<in> set (tasks_below f) \<longrightarrow> Call_DeleteTask (task_Path x) \<in> set (deletes_in f)"
  "x \<in> set (tasks_below_list fs) \<longrightarrow> Call_DeleteTask (task_Path x) \<in> set (deletes_of_list fs)"
  by (induction f and fs rule: tasks_below_tasks_below_list.induct) auto

lemma deletes_bottom_up:
  "g \<in> set (folders_below f) \<longrightarrow>
     (\<exists>pre post. deletes_in f = pre @ deletes_in g @ [Call_DeleteFolder (folder_Path g)] @ post)"
  "g \<in> set (folders_below_list fs) \<longrightarrow>
     (\<exists>pre post. deletes_of_list fs =
        pre @ deletes_in g @ [Call_DeleteFolder (folder_Path g)] @ post)"
proof (induction f and fs rule: tasks_below_tasks_below_list.induct)
  case (1 n p ts fs)
  show ?case
  proof
    assume "g \<in> set (folders_below (NFolder n p ts fs))"
    with 1 obtain pre post where
      "deletes_of_list fs = pre @ deletes_in g @ [Call_DeleteFolder (folder_Path g)] @ post"
      by auto
    then have "deletes_in (NFolder n p ts fs) =
        (map (\<lambda>x. Call_DeleteTask (task_Path x)) ts @ pre) @ deletes_in g
          @ [Call_DeleteFolder (folder_Path g)] @ post"
      by simp
    then show "\<exists>pre post. deletes_in (NFolder n p ts fs) =
        pre @ deletes_in g @ [Call_DeleteFolder (folder_Path g)] @ post"
      by blast
  qed
next
  case 2
  show ?case by simp
next
  case (3 h hs)
  show ?case
  proof
    assume "g \<in> set (folders_below_list (h # hs))"
    then consider "g = h" | "g \<in> set (folders_below h)" | "g \<in> set (folders_below_list hs)"
      by auto
    then show "\<exists>pre post. deletes_of_list (h # hs) =
        pre @ deletes_in g @ [Call_DeleteFolder (folder_Path g)] @ post"
    proof cases
      case 1
      then have "deletes_of_list (h # hs) =
          [] @ deletes_in g @ [Call_DeleteFolder (folder_Path g)] @ deletes_of_list hs"
        by simp
      then show ?thesis by blast
    next
      case 2
      with 3 obtain pre post where
        "deletes_in h = pre @ deletes_in g @ [Call_DeleteFolder (folder_Path g)] @ post"
        by auto
      then have "deletes_of_list (h # hs) =
          pre @ deletes_in g @ [Call_DeleteFolder (folder_Path g)]
            @ (post @ [Call_DeleteFolder (folder_Path h)] @ deletes_of_list hs)"
        by simp
      then show ?thesis by blast
    next
      case 3
      with "3.IH" obtain pre post where
        "deletes_of_list hs = pre @ deletes_in g @ [Call_DeleteFolder (folder_Path g)] @ post"
        by auto
      then have "deletes_of_list (h # hs) =
          (deletes_in h @ [Call_DeleteFolder (folder_Path h)] @ pre) @ deletes_in g
            @ [Call_DeleteFolder (folder_Path g)] @ post"
        by simp
      then show ?thesis by blast
    qed
  qed
qed

text \<open>
  C7, as stated, fails in its recursive half.  The claim has all tasks of every descendant
  folder deleted first and the emptied folders after them.  The code deletes each
  subfolder inside its own visit: for the folder \<open>S\<close> with the folders \<open>B\<close> and
  \<open>C\<close>, one task each, the deletions are the task of \<open>B\<close>, the folder \<open>B\<close>, the
  task of \<open>C\<close>, the folder \<open>C\<close>, the folder \<open>S\<close>: the folder \<open>B\<close> is deleted
  before the task of \<open>C\<close> is.
\<close>

theorem DeleteFolder_order_interleaved:
  "folderAt example_bridge_siblings (BACKSLASH # ''S'') = Some example_folder_S \<and>
   folder_Folders example_folder_S \<noteq> [] \<and>
   DeleteFolder example_bridge_siblings example_TaskService (BACKSLASH # ''S'') True [] =
     (Returned True,
      [Call_GetFolder (BACKSLASH # ''S''),
       Call_GetTasks (BACKSLASH # ''S''),
       Call_GetFolders (BACKSLASH # ''S'') True,
       Call_GetTasks (BACKSLASH # ''S'' @ BACKSLASH # ''B''),
       Call_DeleteTask (BACKSLASH # ''S'' @ BACKSLASH # ''B'' @ BACKSLASH # ''TB''),
       Call_GetFolders (BACKSLASH # ''S'' @ BACKSLASH # ''B'') True,
       Call_DeleteFolder (BACKSLASH # ''S'' @ BACKSLASH # ''B''),
       Call_GetTasks (BACKSLASH # ''S'' @ BACKSLASH # ''C''),
       Call_DeleteTask (BACKSLASH # ''S'' @ BACKSLASH # ''C'' @ BACKSLASH # ''TC''),
       Call_GetFolders (BACKSLASH # ''S'' @ BACKSLASH # ''C'') True,
       Call_DeleteFolder (BACKSLASH # ''S'' @ BACKSLASH # ''C''),
       Call_DeleteFolder (BACKSLASH # ''S'')]) \<and>
   filter is_delete
     (snd (DeleteFolder example_bridge_siblings example_TaskService (BACKSLASH # ''S'') True [])) =
     [Call_DeleteTask (BACKSLASH # ''S'' @ BACKSLASH # ''B'' @ BACKSLASH # ''TB''),
      Call_DeleteFolder (BACKSLASH # ''S'' @ BACKSLASH # ''B''),
      Call_DeleteTask (BACKSLASH # ''S'' @ BACKSLASH # ''C'' @ BACKSLASH # ''TC''),
      Call_DeleteFolder (BACKSLASH # ''S'' @ BACKSLASH # ''C''),
      Call_DeleteFolder (BACKSLASH # ''S'')] \<and>
   \<not> tasks_before_folders
     (snd (DeleteFolder example_bridge_siblings example_TaskService (BACKSLASH # ''S'') True []))"
proof -
  have e: "DeleteFolder example_bridge_siblings example_TaskService (BACKSLASH # ''S'') True [] =
     (Returned True,
      [Call_GetFolder (BACKSLASH # ''S''),
       Call_GetTasks (BACKSLASH # ''S''),
       Call_GetFolders (BACKSLASH # ''S'') True,
       Call_GetTasks (BACKSLASH # ''S'' @ BACKSLASH # ''B''),
       Call_DeleteTask (BACKSLASH # ''S'' @ BACKSLASH # ''B'' @ BACKSLASH # ''TB''),
       Call_GetFolders (BACKSLASH # ''S'' @ BACKSLASH # ''B'') True,
       Call_DeleteFolder (BACKSLASH # ''S'' @ BACKSLASH # ''B''),
       Call_GetTasks (BACKSLASH # ''S'' @ BACKSLASH # ''C''),
       Call_DeleteTask (BACKSLASH # ''S'' @ BACKSLASH # ''C'' @ BACKSLASH # ''TC''),
       Call_GetFolders (BACKSLASH # ''S'' @ BACKSLASH # ''C'') True,
       Call_DeleteFolder (BACKSLASH # ''S'' @ BACKSLASH # ''C''),
       Call_DeleteFolder (BACKSLASH # ''S'')])"
    by (simp add: DeleteFolder_def DeleteFolder_contents_def DeleteTask_def
        service_GetFolder_def CallMethod_def example_bridge_siblings_def
        example_hierarchy_siblings_def example_folder_S_def example_task_TB_def
        example_task_TC_def example_TaskService_def)
  have f: "folderAt example_bridge_siblings (BACKSLASH # ''S'') = Some example_folder_S"
    by (simp add: example_bridge_siblings_def example_hierarchy_siblings_def
        example_folder_S_def)
  have g: "folder_Folders example_folder_S \<noteq> []"
    by (simp add: example_folder_S_def)
  show ?thesis
    using f g by (simp add: e tasks_before_folders_def)
qed

text \<open>
  C7, amended.  Let no native call fail, the connection hold its two handles, and the
  service resolve the path, which begins with the backslash, to a folder.  If the folder
  holds a task or a folder, \<open>DeleteFolder\<close> without recursion returns false and no error
  after the folder lookup and the reads of the folder: it issues no delete call.  With
  recursion, when every task path in and below the folder begins with the backslash, it
  returns true and no error, and the delete calls it issues are, in order: the tasks of
  the folder; then, for each of its folders in turn and depth-first, the deletions that
  empty that folder followed by the deletion of that folder; then the folder itself.
  These deletions contain the deletion of every task in and below the folder, and, for
  every folder below it, the deletions that empty that folder immediately followed by the
  deletion of that folder.
\<close>

theorem DeleteFolder_nonempty:
  assumes "cooperative br"
    and "taskServiceObj t \<noteq> None" and "rootFolderObj t \<noteq> None"
    and "folderAt br (BACKSLASH # cs) = Some f"
  shows "(folder_Tasks f \<noteq> [] \<or> folder_Folders f \<noteq> [] \<longrightarrow>
            DeleteFolder br t (BACKSLASH # cs) False log =
              (Returned False,
               log @ [Call_GetFolder (BACKSLASH # cs), Call_GetTasks (folder_Path f)]
                   @ (if folder_Tasks f = [] then [Call_GetFolders (folder_Path f) True]
                      else []))) \<and>
         ((\<forall>x \<in> set (tasks_below f). rooted (task_Path x)) \<longrightarrow>
            (\<exists>added. DeleteFolder br t (BACKSLASH # cs) True log = (Returned True, log @ added) \<and>
               filter is_delete added = deletes_in f @ [Call_DeleteFolder (BACKSLASH # cs)])) \<and>
         (\<forall>x \<in> set (tasks_below f). Call_DeleteTask (task_Path x) \<in> set (deletes_in f)) \<and>
         (\<forall>g \<in> set (folders_below f).
            \<exists>pre post. deletes_in f =
              pre @ deletes_in g @ [Call_DeleteFolder (folder_Path g)] @ post)"
proof (intro conjI impI ballI)
  obtain s r where h: "taskServiceObj t = Some s" "rootFolderObj t = Some r"
    using assms(2,3) by auto
  note cm = CallMethod_cooperative [OF assms(1)]
  {
    assume "folder_Tasks f \<noteq> [] \<or> folder_Folders f \<noteq> []"
    then show "DeleteFolder br t (BACKSLASH # cs) False log =
              (Returned False,
               log @ [Call_GetFolder (BACKSLASH # cs), Call_GetTasks (folder_Path f)]
                   @ (if folder_Tasks f = [] then [Call_GetFolders (folder_Path f) True]
                      else []))"
      using assms(4) h by (auto simp: DeleteFolder_def service_GetFolder_def cm)
  }
  {
    assume a: "\<forall>x \<in> set (tasks_below f). rooted (task_Path x)"
    obtain n p ts fs where f: "f = NFolder n p ts fs"
      by (cases f)
    define l2 where "l2 = log @ [Call_GetFolder (BACKSLASH # cs), Call_GetTasks p,
      Call_GetFolders p True]"
    have ts: "forEach_deleteAllTasks br t ts l2 =
        (Returned (), l2 @ map (\<lambda>x. Call_DeleteTask (task_Path x)) ts)"
      using a f by (intro forEach_deleteAllTasks_cooperative [OF assms(1,3)]) simp
    have "\<forall>x \<in> set (tasks_below_list fs). rooted (task_Path x)"
      using a f by simp
    then obtain added where
      rec: "forEach_deleteTasksRecursively br t (BACKSLASH # cs) fs
              (l2 @ map (\<lambda>x. Call_DeleteTask (task_Path x)) ts) =
            (Returned (), (l2 @ map (\<lambda>x. Call_DeleteTask (task_Path x)) ts) @ added)"
      and del: "filter is_delete added = deletes_of_list fs"
      using deleteTasksRecursively_cooperative(2) [OF assms(1,3), of fs "BACKSLASH # cs"]
      by blast
    have "DeleteFolder br t (BACKSLASH # cs) True log =
        (Returned True,
         log @ ([Call_GetFolder (BACKSLASH # cs), Call_GetTasks p, Call_GetFolders p True]
           @ map (\<lambda>x. Call_DeleteTask (task_Path x)) ts @ added
           @ [Call_DeleteFolder (BACKSLASH # cs)]))"
      using assms(4) h f ts rec
      by (simp add: DeleteFolder_def DeleteFolder_contents_def service_GetFolder_def cm l2_def)
    moreover have "filter is_delete
        ([Call_GetFolder (BACKSLASH # cs), Call_GetTasks p, Call_GetFolders p True]
           @ map (\<lambda>x. Call_DeleteTask (task_Path x)) ts @ added
           @ [Call_DeleteFolder (BACKSLASH # cs)]) =
        deletes_in f @ [Call_DeleteFolder (BACKSLASH # cs)]"
      using del f by (simp add: filter_map comp_def)
    ultimately show "\<exists>added. DeleteFolder br t (BACKSLASH # cs) True log =
          (Returned True, log @ added) \<and>
        filter is_delete added = deletes_in f @ [Call_DeleteFolder (BACKSLASH # cs)]"
      by blast
  }
  {
    fix x assume "x \<in> set (tasks_below f)"
    then show "Call_DeleteTask (task_Path x) \<in> set (deletes_in f)"
      using deletes_cover_tasks(1) by blast
  }
  {
    fix g assume "g \<in> set (folders_below f)"
    then show "\<exists>pre post. deletes_in f =
        pre @ deletes_in g @ [Call_DeleteFolder (folder_Path g)] @ post"
      using deletes_bottom_up(1) by blast
  }
qed

theorem DeleteFolder_nonempty_witness:
  "cooperative example_bridge \<and>
   folderAt example_bridge (BACKSLASH # ''A'') = Some example_folder_A \<and>
   folder_Tasks example_folder_A \<noteq> [] \<and>
   tasks_below example_folder_A = [example_task_A, example_task_B] \<and>
   rooted (task_Path example_task_A) \<and> rooted (task_Path example_task_B) \<and>
   DeleteFolder example_bridge example_TaskService (BACKSLASH # ''A'') False [] =
     (Returned False, [Call_GetFolder (BACKSLASH # ''A''), Call_GetTasks (BACKSLASH # ''A'')]) \<and>
   DeleteFolder example_bridge example_TaskService (BACKSLASH # ''A'') True [] =
     (Returned True,
      [Call_GetFolder (BACKSLASH # ''A''),
       Call_GetTasks (BACKSLASH # ''A''),
       Call_GetFolders (BACKSLASH # ''A'') True,
       Call_DeleteTask (BACKSLASH # ''A'' @ BACKSLASH # ''TaskA''),
       Call_GetTasks (BACKSLASH # ''A'' @ BACKSLASH # ''B''),
       Call_DeleteTask (BACKSLASH # ''A'' @ BACKSLASH # ''B'' @ BACKSLASH # ''TaskB''),
       Call_GetFolders (BACKSLASH # ''A'' @ BACKSLASH # ''B'') True,
       Call_DeleteFolder (BACKSLASH # ''A'' @ BACKSLASH # ''B''),
       Call_DeleteFolder (BACKSLASH # ''A'')]) \<and>
   deletes_in example_folder_A @ [Call_DeleteFolder (BACKSLASH # ''A'')] =
     [Call_DeleteTask (BACKSLASH # ''A'' @ BACKSLASH # ''TaskA''),
      Call_DeleteTask (BACKSLASH # ''A'' @ BACKSLASH # ''B'' @ BACKSLASH # ''TaskB''),
      Call_DeleteFolder (BACKSLASH # ''A'' @ BACKSLASH # ''B''),
      Call_DeleteFolder (BACKSLASH # ''A'')] \<and>
   cooperative example_bridge_siblings \<and>
   folderAt example_bridge_siblings (BACKSLASH # ''S'') = Some example_folder_S \<and>
   folder_Folders example_folder_S \<noteq> [] \<and>
   tasks_below example_folder_S = [example_task_TB, example_task_TC] \<and>
   rooted (task_Path example_task_TB) \<and> rooted (task_Path example_task_TC) \<and>
   DeleteFolder example_bridge_siblings example_TaskService (BACKSLASH # ''S'') False [] =
     (Returned False,
      [Call_GetFolder (BACKSLASH # ''S''), Call_GetTasks (BACKSLASH # ''S''),
       Call_GetFolders (BACKSLASH # ''S'') True]) \<and>
   fst (DeleteFolder example_bridge_siblings example_TaskService (BACKSLASH # ''S'') True []) =
     Returned True \<and>
   filter is_delete
     (snd (DeleteFolder example_bridge_siblings example_TaskService (BACKSLASH # ''S'') True [])) =
     deletes_in example_folder_S @ [Call_DeleteFolder (BACKSLASH # ''S'')] \<and>
   deletes_in example_folder_S @ [Call_DeleteFolder (BACKSLASH # ''S'')] =
     [Call_DeleteTask (BACKSLASH # ''S'' @ BACKSLASH # ''B'' @ BACKSLASH # ''TB''),
      Call_DeleteFolder (BACKSLASH # ''S'' @ BACKSLASH # ''B''),
      Call_DeleteTask (BACKSLASH # ''S'' @ BACKSLASH # ''C'' @ BACKSLASH # ''TC''),
      Call_DeleteFolder (BACKSLASH # ''S'' @ BACKSLASH # ''C''),
      Call_DeleteFolder (BACKSLASH # ''S'')]"
proof -
  have c': "cooperative example_bridge_siblings"
    by (simp add: cooperative_def example_bridge_siblings_def)
  have f': "folderAt example_bridge_siblings (BACKSLASH # ''S'') = Some example_folder_S"
    by (simp add: example_bridge_siblings_def example_hierarchy_siblings_def
        example_folder_S_def)
  have g': "folder_Folders example_folder_S \<noteq> []" "folder_Tasks example_folder_S = []"
    "folder_Path example_folder_S = BACKSLASH # ''S''"
    by (simp_all add: example_folder_S_def)
  have b': "tasks_below example_folder_S = [example_task_TB, example_task_TC]"
    by (simp add: example_folder_S_def)
  have r'': "rooted (task_Path example_task_TB)" "rooted (task_Path example_task_TC)"
    by (simp_all add: example_task_TB_def example_task_TC_def rooted_def)
  have d': "deletes_in example_folder_S @ [Call_DeleteFolder (BACKSLASH # ''S'')] =
     [Call_DeleteTask (BACKSLASH # ''S'' @ BACKSLASH # ''B'' @ BACKSLASH # ''TB''),
      Call_DeleteFolder (BACKSLASH # ''S'' @ BACKSLASH # ''B''),
      Call_DeleteTask (BACKSLASH # ''S'' @ BACKSLASH # ''C'' @ BACKSLASH # ''TC''),
      Call_DeleteFolder (BACKSLASH # ''S'' @ BACKSLASH # ''C''),
      Call_DeleteFolder (BACKSLASH # ''S'')]"
    by (simp add: example_folder_S_def example_task_TB_def example_task_TC_def)
  have c: "cooperative example_bridge"
    by (simp add: cooperative_def example_bridge_def)
  have h: "taskServiceObj example_TaskService \<noteq> None" "rootFolderObj example_TaskService \<noteq> None"
    by (simp_all add: example_TaskService_def)
  have f: "folderAt example_bridge (BACKSLASH # ''A'') = Some example_folder_A"
    by (simp add: example_bridge_def example_hierarchy_def example_folder_A_def)
  have r: "\<forall>x \<in> set (tasks_below example_folder_A). rooted (task_Path x)"
    by (simp add: example_folder_A_def example_folder_B_def example_task_A_def
        example_task_B_def rooted_def)
  have d: "deletes_in example_folder_A @ [Call_DeleteFolder (BACKSLASH # ''A'')] =
     [Call_DeleteTask (BACKSLASH # ''A'' @ BACKSLASH # ''TaskA''),
      Call_DeleteTask (BACKSLASH # ''A'' @ BACKSLASH # ''B'' @ BACKSLASH # ''TaskB''),
      Call_DeleteFolder (BACKSLASH # ''A'' @ BACKSLASH # ''B''),
      Call_DeleteFolder (BACKSLASH # ''A'')]"
    by (simp add: example_folder_A_def example_folder_B_def example_task_A_def
        example_task_B_def)
  have e: "DeleteFolder example_bridge example_TaskService (BACKSLASH # ''A'') True [] =
     (Returned True,
      [Call_GetFolder (BACKSLASH # ''A''),
       Call_GetTasks (BACKSLASH # ''A''),
       Call_GetFolders (BACKSLASH # ''A'') True,
       Call_DeleteTask (BACKSLASH # ''A'' @ BACKSLASH # ''TaskA''),
       Call_GetTasks (BACKSLASH # ''A'' @ BACKSLASH # ''B''),
       Call_DeleteTask (BACKSLASH # ''A'' @ BACKSLASH # ''B'' @ BACKSLASH # ''TaskB''),
       Call_GetFolders (BACKSLASH # ''A'' @ BACKSLASH # ''B'') True,
       Call_DeleteFolder (BACKSLASH # ''A'' @ BACKSLASH # ''B''),
       Call_DeleteFolder (BACKSLASH # ''A'')])"
    by (simp add: DeleteFolder_def DeleteFolder_contents_def DeleteTask_def
        service_GetFolder_def CallMethod_def example_bridge_def example_hierarchy_def
        example_folder_A_def example_folder_B_def example_task_A_def example_task_B_def
        example_TaskService_def)
  have b: "tasks_below example_folder_A = [example_task_A, example_task_B]"
    by (simp add: example_folder_A_def example_folder_B_def)
  have r': "rooted (task_Path example_task_A)" "rooted (task_Path example_task_B)"
    by (simp_all add: example_task_A_def example_task_B_def rooted_def)
  have s1: "folder_Tasks example_folder_A \<noteq> []"
    by (simp add: example_folder_A_def)
  have s2: "folder_Path example_folder_A = BACKSLASH # ''A''"
    by (simp add: example_folder_A_def)
  have w1: "DeleteFolder example_bridge example_TaskService (BACKSLASH # ''A'') False [] =
     (Returned False, [Call_GetFolder (BACKSLASH # ''A''), Call_GetTasks (BACKSLASH # ''A'')])"
    using DeleteFolder_nonempty [OF c h f, of "[]"] s1 s2 by simp
  have w2: "DeleteFolder example_bridge_siblings example_TaskService (BACKSLASH # ''S'') False [] =
     (Returned False,
      [Call_GetFolder (BACKSLASH # ''S''), Call_GetTasks (BACKSLASH # ''S''),
       Call_GetFolders (BACKSLASH # ''S'') True])"
    using DeleteFolder_nonempty [OF c' h f', of "[]"] g' by simp
  have w3: "fst (DeleteFolder example_bridge_siblings example_TaskService (BACKSLASH # ''S'')
                   True []) = Returned True \<and>
     filter is_delete
       (snd (DeleteFolder example_bridge_siblings example_TaskService (BACKSLASH # ''S'')
               True [])) =
       deletes_in example_folder_S @ [Call_DeleteFolder (BACKSLASH # ''S'')]"
    using DeleteFolder_nonempty [OF c' h f', of "[]"] b' r'' by auto
  show ?thesis
    using w1 w2 w3 c f r b r' d e c' f' g' b' r'' d' s1
    by simp
qed

section \<open>Properties of the folder tree\<close>

lemma forEach_parse_ok:
  "\<forall>x \<in> set ts. snd (snd (parseRegisteredTask br x)) = None \<Longrightarrow>
   forEach_parse br ts acc = Returned (acc @ map (\<lambda>x. fst (parseRegisteredTask br x)) ts)"
  by (induction ts arbitrary: acc) (auto split: prod.splits option.splits)

lemma enumTaskFolders_mirrors:
  assumes "cooperative br"
  shows "(\<forall>x \<in> set (tasks_below g). snd (snd (parseRegisteredTask br x)) = None) \<longrightarrow>
     (\<forall>log. \<exists>added. enumTaskFolders br g log = (Returned (mirror br g), log @ added))"
    and "(\<forall>x \<in> set (tasks_below_list gs). snd (snd (parseRegisteredTask br x)) = None) \<longrightarrow>
     (\<forall>log acc. \<exists>added. forEach_enumTaskFolders br gs acc log =
        (Returned (acc @ mirror_list br gs), log @ added))"
proof (induction g and gs rule: tasks_below_tasks_below_list.induct)
  case (1 n p ts fs)
  show ?case
  proof (intro impI allI)
    fix log
    assume a: "\<forall>x \<in> set (tasks_below (NFolder n p ts fs)).
      snd (snd (parseRegisteredTask br x)) = None"
    define l2 where "l2 = log @ [Call_GetTasks p, Call_GetFolders p False]"
    have ih: "\<forall>log acc. \<exists>added. forEach_enumTaskFolders br fs acc log =
        (Returned (acc @ mirror_list br fs), log @ added)"
      using a 1 by simp
    obtain added where
      rec: "forEach_enumTaskFolders br fs [] l2 = (Returned ([] @ mirror_list br fs), l2 @ added)"
      using ih by blast
    have ts: "forEach_parse br ts [] = Returned ([] @ map (\<lambda>x. fst (parseRegisteredTask br x)) ts)"
      using a by (intro forEach_parse_ok) simp
    have "enumTaskFolders br (NFolder n p ts fs) log =
        (Returned (mirror br (NFolder n p ts fs)),
         log @ ([Call_GetTasks p, Call_GetFolders p False] @ added))"
      using rec ts by (simp add: CallMethod_cooperative [OF assms] l2_def)
    then show "\<exists>added. enumTaskFolders br (NFolder n p ts fs) log =
        (Returned (mirror br (NFolder n p ts fs)), log @ added)"
      by blast
  qed
next
  case 2
  show ?case by simp
next
  case (3 g gs)
  show ?case
  proof (intro impI allI)
    fix log acc
    assume a: "\<forall>x \<in> set (tasks_below_list (g # gs)).
      snd (snd (parseRegisteredTask br x)) = None"
    have ih1: "\<forall>log. \<exists>added. enumTaskFolders br g log = (Returned (mirror br g), log @ added)"
      using a 3 by simp
    have ih2: "\<forall>log acc. \<exists>added. forEach_enumTaskFolders br gs acc log =
        (Returned (acc @ mirror_list br gs), log @ added)"
      using a 3 by simp
    obtain a1 where g: "enumTaskFolders br g log = (Returned (mirror br g), log @ a1)"
      using ih1 by blast
    obtain a2 where gs: "forEach_enumTaskFolders br gs (acc @ [mirror br g]) (log @ a1) =
        (Returned ((acc @ [mirror br g]) @ mirror_list br gs), (log @ a1) @ a2)"
      using ih2 by blast
    have "forEach_enumTaskFolders br (g # gs) acc log =
        (Returned (acc @ mirror_list br (g # gs)), log @ (a1 @ a2))"
      using g gs by simp
    then show "\<exists>added. forEach_enumTaskFolders br (g # gs) acc log =
        (Returned (acc @ mirror_list br (g # gs)), log @ added)"
      by blast
  qed
qed

text \<open>
  When no native call fails and every task parses, the result of \<open>GetTaskFolder\<close> for a
  path that the service resolves has the tasks of the folder as parsed and, below the root
  node, the mirror of every folder; the root node itself has no name and the path of the
  root.
\<close>

lemma GetTaskFolder_mirrors:
  assumes "cooperative br"
    and "taskServiceObj t \<noteq> None" and "rootFolderObj t \<noteq> None"
    and "(if cs = [] then Some (hierarchy br) else folderAt br (BACKSLASH # cs)) = Some f"
    and "\<forall>x \<in> set (tasks_below f). snd (snd (parseRegisteredTask br x)) = None"
  shows "fst (GetTaskFolder br t (BACKSLASH # cs) log) =
     Returned (TaskFolder [] [BACKSLASH]
                 (map (\<lambda>x. fst (parseRegisteredTask br x)) (folder_Tasks f))
                 (mirror_list br (folder_Folders f)))"
proof -
  obtain s r where h: "taskServiceObj t = Some s" "rootFolderObj t = Some r"
    using assms(2,3) by auto
  obtain n p ts fs where f: "f = NFolder n p ts fs"
    by (cases f)
  note cm = CallMethod_cooperative [OF assms(1)]
  have ts: "forEach_parse br ts [] = Returned ([] @ map (\<lambda>x. fst (parseRegisteredTask br x)) ts)"
    using assms(5) f by (intro forEach_parse_ok) simp
  have sub: "\<forall>x \<in> set (tasks_below_list fs). snd (snd (parseRegisteredTask br x)) = None"
    using assms(5) f by simp
  have walk: "fst (GetTaskFolder_walk br (BACKSLASH # cs) (Some f) l) =
      Returned (TaskFolder [] [BACKSLASH] (map (\<lambda>x. fst (parseRegisteredTask br x)) ts)
                  (mirror_list br fs))" for l
  proof -
    obtain added where
      "forEach_enumTaskFolders br fs [] (l @ [Call_GetTasks p] @ [Call_GetFolders p False]) =
         (Returned ([] @ mirror_list br fs),
          (l @ [Call_GetTasks p] @ [Call_GetFolders p False]) @ added)"
      using enumTaskFolders_mirrors(2) [OF assms(1), of fs] sub by blast
    then show ?thesis
      using ts f by (simp add: GetTaskFolder_walk_def cm)
  qed
  show ?thesis
  proof (cases "cs = []")
    case True
    then show ?thesis
      using assms(4) h walk f by (simp add: GetTaskFolder_def)
  next
    case False
    then show ?thesis
      using assms(4) h walk f by (simp add: GetTaskFolder_def service_GetFolder_def cm)
  qed
qed

text \<open>
  C5, at a path other than the root.  The root node of the result is created with the
  path of the root whatever path is asked for: for the folder \<open>A\<close> of the example
  service the returned root has the path of the root, not that of \<open>A\<close>, where the claim
  expects the path asked for.  The nodes below the root mirror the service; asked for the
  root, the result is a root without tasks and with one folder \<open>A\<close>, which has one task
  and one folder \<open>B\<close>, which has one task.
\<close>

theorem GetTaskFolder_root_path_fixed:
  "GetTaskFolder example_bridge example_TaskService (BACKSLASH # ''A'') [] =
     (Returned
        (TaskFolder [] [BACKSLASH] [example_RegisteredTask example_task_A]
           [TaskFolder ''B'' (BACKSLASH # ''A'' @ BACKSLASH # ''B'')
              [example_RegisteredTask example_task_B] []]),
      [Call_GetFolder (BACKSLASH # ''A''),
       Call_GetTasks (BACKSLASH # ''A''),
       Call_GetFolders (BACKSLASH # ''A'') False,
       Call_GetTasks (BACKSLASH # ''A'' @ BACKSLASH # ''B''),
       Call_GetFolders (BACKSLASH # ''A'' @ BACKSLASH # ''B'') False]) \<and>
   Path (TaskFolder [] [BACKSLASH] [example_RegisteredTask example_task_A]
           [TaskFolder ''B'' (BACKSLASH # ''A'' @ BACKSLASH # ''B'')
              [example_RegisteredTask example_task_B] []]) \<noteq> BACKSLASH # ''A'' \<and>
   GetTaskFolder example_bridge example_TaskService [BACKSLASH] [] =
     (Returned
        (TaskFolder [] [BACKSLASH] []
           [TaskFolder ''A'' (BACKSLASH # ''A'') [example_RegisteredTask example_task_A]
              [TaskFolder ''B'' (BACKSLASH # ''A'' @ BACKSLASH # ''B'')
                 [example_RegisteredTask example_task_B] []]]),
      [Call_GetTasks [BACKSLASH],
       Call_GetFolders [BACKSLASH] False,
       Call_GetTasks (BACKSLASH # ''A''),
       Call_GetFolders (BACKSLASH # ''A'') False,
       Call_GetTasks (BACKSLASH # ''A'' @ BACKSLASH # ''B''),
       Call_GetFolders (BACKSLASH # ''A'' @ BACKSLASH # ''B'') False])"
  by (simp add: GetTaskFolder_def GetTaskFolder_walk_def service_GetFolder_def CallMethod_def
      example_bridge_def example_hierarchy_def example_folder_A_def example_folder_B_def
      example_TaskService_def example_parse_def)

end
